theory Spec2Isabelle
  imports Complex_Main
begin

section \<open>Values shared by the kiosk front end\<close>

text \<open>
  JavaScript numbers are IEEE-754 doubles. A finite double denotes a rational number,
  and the model identifies it with that rational: comparison (\<open><\<close>, \<open>===\<close>) of finite
  doubles is comparison of the rationals they denote. \<open>NaN\<close> and the infinities are
  outside the model. A number is falsy exactly when it is zero.
\<close>

type_synonym number = rat

text \<open>A promise of the HTTP client either rejects or resolves with the response data.\<close>

datatype 'a response = Rejected | Resolved 'a

text \<open>\<open>a || b\<close> for a possibly undefined number \<open>a\<close> (\<open>None\<close> is \<open>undefined\<close>).\<close>

definition or_num :: "number option \<Rightarrow> number \<Rightarrow> number" where
  "or_num a b = (case a of None \<Rightarrow> b | Some v \<Rightarrow> if v \<noteq> 0 then v else b)"

subsection \<open>Values of response bodies\<close>

text \<open>
  What a response body is after the HTTP client has parsed it, any JSON value, and
  \<open>undefined\<close> for a property that is absent. An object is the list of its properties,
  with distinct names.
\<close>

datatype jsval =
    JUndefined
  | JNull
  | JBool bool
  | JNum number
  | JStr string
  | JArr "jsval list"
  | JObj "(string \<times> jsval) list"

text \<open>
  \<open>v.name\<close> for a name that is not a built-in property: a TypeError (\<open>None\<close>) on
  \<open>null\<close> and \<open>undefined\<close>, the property of an object, and \<open>undefined\<close> on
  everything else.
\<close>

definition get_prop :: "jsval \<Rightarrow> string \<Rightarrow> jsval option" where
  "get_prop v name =
     (case v of
        JUndefined \<Rightarrow> None
      | JNull \<Rightarrow> None
      | JObj ps \<Rightarrow> Some (case map_of ps name of None \<Rightarrow> JUndefined | Some x \<Rightarrow> x)
      | _ \<Rightarrow> Some JUndefined)"


subsection \<open>Arithmetic on doubles\<close>

text \<open>
  The result of an arithmetic operation on doubles is the exact result rounded to the
  nearest double, ties to the even significand (IEEE-754 binary64: 53 significant bits,
  least normal exponent \<open>-1022\<close>). \<open>binade x\<close> is the exponent \<open>e\<close> with
  \<open>2^e \<le> x < 2^(e+1)\<close>, held at \<open>-1022\<close> for subnormal \<open>x\<close>; the spacing of the
  doubles around \<open>x\<close> is \<open>2^(e-52)\<close>. Overflow to an infinity (magnitudes from
  \<open>2^1024\<close>) is outside the model.
\<close>

definition pow2 :: "int \<Rightarrow> rat" where
  "pow2 e = (if 0 \<le> e then 2 ^ nat e else 1 / 2 ^ nat (- e))"

definition round_half_even :: "rat \<Rightarrow> int" where
  "round_half_even q =
     (let f = \<lfloor>q\<rfloor>; r = q - of_int f
      in if r < 1/2 then f else if 1/2 < r then f + 1 else if even f then f else f + 1)"

function bup :: "rat \<Rightarrow> int \<Rightarrow> int" where
  "bup x e = (if x < 2 \<or> 1024 \<le> e then e else bup (x / 2) (e + 1))"
  by pat_completeness auto
termination
  by (relation "measure (\<lambda>(x, e). nat (1024 - e))") auto

function bdown :: "rat \<Rightarrow> int \<Rightarrow> int" where
  "bdown x e = (if 1 \<le> x \<or> e \<le> - 1022 then e else bdown (2 * x) (e - 1))"
  by pat_completeness auto
termination
  by (relation "measure (\<lambda>(x, e). nat (e + 1022))") auto

text \<open>The two equations are used where a proof names them, not as rewrite rules.\<close>

declare bup.simps [simp del] bdown.simps [simp del]

definition binade :: "rat \<Rightarrow> int" where
  "binade x = (if 1 \<le> x then bup x 0 else bdown x 0)"

definition ulp :: "rat \<Rightarrow> rat" where
  "ulp x = pow2 (binade \<bar>x\<bar> - 52)"

definition round_double :: "rat \<Rightarrow> number" where
  "round_double x = of_int (round_half_even (x / ulp x)) * ulp x"

text \<open>The operator \<open>-\<close> of the source.\<close>

definition js_sub :: "number \<Rightarrow> number \<Rightarrow> number" where
  "js_sub a b = round_double (a - b)"

subsection \<open>\<open>Number.prototype.toFixed(2)\<close>\<close>

text \<open>
  \<open>x.toFixed(2)\<close> takes the integer \<open>n\<close> with \<open>n / 100\<close> nearest to the exact value
  of \<open>\<bar>x\<bar>\<close>, the larger one on a tie, and prints it with two decimals after the sign
  (magnitudes from \<open>10^21\<close>, printed in exponent notation, are outside the model).
\<close>

fun digits10 :: "nat \<Rightarrow> string" where
  "digits10 n =
     (if n < 10 then [char_of (48 + n)]
      else digits10 (n div 10) @ [char_of (48 + n mod 10)])"

definition fixed2_of_cents :: "nat \<Rightarrow> string" where
  "fixed2_of_cents n =
     digits10 (n div 100) @ ''.'' @ [char_of (48 + n mod 100 div 10), char_of (48 + n mod 10)]"

definition toFixed2 :: "number \<Rightarrow> string" where
  "toFixed2 x =
     (if x < 0 then ''-'' else []) @ fixed2_of_cents (nat \<lfloor>\<bar>x\<bar> * 100 + 1/2\<rfloor>)"

section \<open>config/transitConfig.js\<close>

text \<open>
  The station list is kept as the value it is: the code hands it on and never looks
  inside it. A fare entry and the minimum fare are numbers.
\<close>

definition station_obj :: "int \<Rightarrow> string \<Rightarrow> jsval" where
  "station_obj i n = JObj [(''id'', JNum (of_int i)), (''name'', JStr n)]"

record pricing_entry =
  stationA :: int
  stationB :: int
  fare :: number

record config =
  stations :: jsval
  pricing :: "pricing_entry list"
  minimumFare :: number

text \<open>
  The bundled snapshot. Its \<open>lastUpdated\<close> and \<open>version\<close> fields are never read by
  the code and are left out.
\<close>

definition transitConfig :: config where
  "transitConfig = \<lparr>
     stations = JArr [
       station_obj 1 ''Central Station'',
       station_obj 2 ''Union Square'',
       station_obj 3 ''Airport Terminal'',
       station_obj 4 ''Downtown'',
       station_obj 5 ''University'',
       station_obj 6 ''Stadium'',
       station_obj 7 ''Harbor Point'',
       station_obj 8 ''Tech Center''],
     pricing = [
       \<lparr>stationA = 1, stationB = 2, fare = 13/4\<rparr>,
       \<lparr>stationA = 1, stationB = 3, fare = 9/2\<rparr>,
       \<lparr>stationA = 1, stationB = 4, fare = 11/4\<rparr>,
       \<lparr>stationA = 1, stationB = 5, fare = 5\<rparr>,
       \<lparr>stationA = 1, stationB = 6, fare = 15/4\<rparr>,
       \<lparr>stationA = 1, stationB = 7, fare = 17/4\<rparr>,
       \<lparr>stationA = 1, stationB = 8, fare = 7/2\<rparr>,
       \<lparr>stationA = 2, stationB = 3, fare = 4\<rparr>,
       \<lparr>stationA = 2, stationB = 4, fare = 5/2\<rparr>,
       \<lparr>stationA = 2, stationB = 5, fare = 11/2\<rparr>,
       \<lparr>stationA = 2, stationB = 6, fare = 3\<rparr>,
       \<lparr>stationA = 2, stationB = 7, fare = 19/4\<rparr>,
       \<lparr>stationA = 2, stationB = 8, fare = 13/4\<rparr>,
       \<lparr>stationA = 3, stationB = 4, fare = 9/4\<rparr>,
       \<lparr>stationA = 3, stationB = 5, fare = 9/2\<rparr>,
       \<lparr>stationA = 3, stationB = 6, fare = 15/4\<rparr>,
       \<lparr>stationA = 3, stationB = 7, fare = 21/4\<rparr>,
       \<lparr>stationA = 3, stationB = 8, fare = 11/4\<rparr>,
       \<lparr>stationA = 4, stationB = 5, fare = 4\<rparr>,
       \<lparr>stationA = 4, stationB = 6, fare = 7/2\<rparr>,
       \<lparr>stationA = 4, stationB = 7, fare = 17/4\<rparr>,
       \<lparr>stationA = 4, stationB = 8, fare = 5/2\<rparr>,
       \<lparr>stationA = 5, stationB = 6, fare = 5\<rparr>,
       \<lparr>stationA = 5, stationB = 7, fare = 13/4\<rparr>,
       \<lparr>stationA = 5, stationB = 8, fare = 19/4\<rparr>,
       \<lparr>stationA = 6, stationB = 7, fare = 15/4\<rparr>,
       \<lparr>stationA = 6, stationB = 8, fare = 9/4\<rparr>,
       \<lparr>stationA = 7, stationB = 8, fare = 13/4\<rparr>],
     minimumFare = 9/4 \<rparr>"

section \<open>services/configManager.js\<close>

text \<open>The singleton's fields; \<open>config = None\<close> is the constructor's \<open>null\<close>.\<close>

record configManager =
  config :: "config option"
  startedOffline :: bool

definition new_ConfigManager :: configManager where
  "new_ConfigManager = \<lparr>config = None, startedOffline = False\<rparr>"

definition loadStaticConfig :: "configManager \<Rightarrow> configManager" where
  "loadStaticConfig cm =
     cm\<lparr>config := Some \<lparr>stations = stations transitConfig,
                          pricing = pricing transitConfig,
                          minimumFare = minimumFare transitConfig\<rparr>\<rparr>"

text \<open>
  \<open>pricing.map(p => ({stationA: p.station_a_id, stationB: p.station_b_id, fare: p.price}))\<close>
  on a resolved body. It throws a TypeError (\<open>None\<close>) when the body is not an array,
  which alone has \<open>map\<close>, and when a row is \<open>null\<close>. The rows it builds hold whatever
  the properties held.
\<close>

record raw_entry =
  raw_stationA :: jsval
  raw_stationB :: jsval
  raw_fare :: jsval

definition map_row :: "jsval \<Rightarrow> raw_entry option" where
  "map_row p =
     (case (get_prop p ''station_a_id'', get_prop p ''station_b_id'', get_prop p ''price'') of
        (Some a, Some b, Some f) \<Rightarrow> Some \<lparr>raw_stationA = a, raw_stationB = b, raw_fare = f\<rparr>
      | _ \<Rightarrow> None)"

definition map_rows :: "jsval \<Rightarrow> raw_entry list option" where
  "map_rows pricing' = (case pricing' of JArr ps \<Rightarrow> those (map map_row ps) | _ \<Rightarrow> None)"

text \<open>
  The config the \<open>try\<close> branch stores, as a \<open>config\<close> of this model when every entry
  holds two integers and a number and the minimum fare is a number.
\<close>

definition int_of :: "jsval \<Rightarrow> int option" where
  "int_of v = (case v of JNum r \<Rightarrow> if r = of_int \<lfloor>r\<rfloor> then Some \<lfloor>r\<rfloor> else None | _ \<Rightarrow> None)"

definition num_of :: "jsval \<Rightarrow> number option" where
  "num_of v = (case v of JNum r \<Rightarrow> Some r | _ \<Rightarrow> None)"

definition entry_of :: "raw_entry \<Rightarrow> pricing_entry option" where
  "entry_of e =
     (case (int_of (raw_stationA e), int_of (raw_stationB e), num_of (raw_fare e)) of
        (Some a, Some b, Some f) \<Rightarrow> Some \<lparr>stationA = a, stationB = b, fare = f\<rparr>
      | _ \<Rightarrow> None)"

definition typed_config :: "jsval \<Rightarrow> raw_entry list \<Rightarrow> jsval \<Rightarrow> config option" where
  "typed_config stations' rows m =
     (case (those (map entry_of rows), num_of m) of
        (Some es, Some mf) \<Rightarrow> Some \<lparr>stations = stations', pricing = es, minimumFare = mf\<rparr>
      | _ \<Rightarrow> None)"

text \<open>
  The manager after \<open>initialize\<close>. \<open>Loaded\<close> is a manager whose config this model
  can hold. \<open>Unvalidated\<close> is the manager with \<open>startedOffline = false\<close> whose config
  has the given stations, entries and minimum fare, of which an entry field or the
  minimum fare is not a number; the model does not follow such a manager further.
\<close>

datatype outcome =
    Loaded configManager
  | Unvalidated jsval "raw_entry list" jsval

text \<open>The \<open>catch\<close> branch.\<close>

definition initialize_catch :: "configManager \<Rightarrow> configManager" where
  "initialize_catch cm = (loadStaticConfig cm)\<lparr>startedOffline := True\<rparr>"

text \<open>
  \<open>initialize\<close> awaits \<open>Promise.all\<close> of the three reads, so one rejection
  rejects the whole and the \<open>catch\<close> branch runs. It runs as well when building the
  config throws: on \<open>pricing.map\<close>, on \<open>minFare.minimum_fare\<close> of a \<open>null\<close> body,
  and, after the config is stored and \<open>startedOffline\<close> is set to false, on
  \<open>this.config.stations.length\<close> of a \<open>null\<close> station body in the log statement.
  Nothing else of the bodies is checked.
\<close>

definition initialize ::
  "jsval response \<Rightarrow> jsval response \<Rightarrow> jsval response \<Rightarrow> configManager \<Rightarrow> outcome" where
  "initialize getStations_r getAllPricing_r getMinimumFare_r cm =
     (case (getStations_r, getAllPricing_r, getMinimumFare_r) of
        (Resolved stations', Resolved pricing', Resolved minFare) \<Rightarrow>
          (case (map_rows pricing', get_prop minFare ''minimum_fare'') of
             (Some rows, Some m) \<Rightarrow>
               if stations' = JNull \<or> stations' = JUndefined then Loaded (initialize_catch cm)
               else (case typed_config stations' rows m of
                       Some c \<Rightarrow> Loaded (cm\<lparr>config := Some c, startedOffline := False\<rparr>)
                     | None \<Rightarrow> Unvalidated stations' rows m)
           | _ \<Rightarrow> Loaded (initialize_catch cm))
      | _ \<Rightarrow> Loaded (initialize_catch cm))"

definition ensureConfig :: "configManager \<Rightarrow> configManager" where
  "ensureConfig cm = (case config cm of None \<Rightarrow> loadStaticConfig cm | Some c \<Rightarrow> cm)"


definition getMinimumFare :: "configManager \<Rightarrow> number \<times> configManager" where
  "getMinimumFare cm =
     (let cm' = ensureConfig cm in
      (or_num (map_option minimumFare (config cm'))
         (or_num (Some (minimumFare transitConfig)) (9/4)), cm'))"

definition pair_matches :: "int \<Rightarrow> int \<Rightarrow> pricing_entry \<Rightarrow> bool" where
  "pair_matches a b p \<longleftrightarrow>
     (stationA p = a \<and> stationB p = b) \<or> (stationA p = b \<and> stationB p = a)"

definition getPricing :: "configManager \<Rightarrow> int \<Rightarrow> int \<Rightarrow> number \<times> configManager" where
  "getPricing cm a b =
     (let cm' = ensureConfig cm;
          pricing' = (case config cm' of None \<Rightarrow> pricing transitConfig | Some c \<Rightarrow> pricing c);
          found = find (pair_matches a b) pricing'
      in case map_option fare found of
           None \<Rightarrow> getMinimumFare cm'
         | Some v \<Rightarrow> if v \<noteq> 0 then (v, cm') else getMinimumFare cm')"

text \<open>The table the lookups read: the manager's config, the snapshot when it has none.\<close>

definition fareTable :: "configManager \<Rightarrow> config" where
  "fareTable cm = (case config cm of None \<Rightarrow> transitConfig | Some c \<Rightarrow> c)"

definition startedInOfflineMode :: "configManager \<Rightarrow> bool" where
  "startedInOfflineMode cm = startedOffline cm"

section \<open>The browser's localStorage\<close>

text \<open>
  The keys the code uses: \<open>card_balance_<uuid>\<close>, \<open>card_trip_<uuid>\<close>,
  \<open>failed_operations\<close> and \<open>kiosk_id\<close>. The browser stores strings; the model
  stores the value a string stands for (\<open>parseFloat\<close> of \<open>toString\<close> and
  \<open>JSON.parse\<close> of \<open>JSON.stringify\<close> give the value back, and neither rendering is
  the empty string), and \<open>None\<close> where the key is absent. The writer is the only
  code that writes \<open>failed_operations\<close>, and it writes arrays of operations; the
  browser may also hold there a string on which reading the backlog throws
  (\<open>Unparsable\<close>: \<open>JSON.parse\<close> rejects it).
\<close>

record tripData =
  trip_station_id :: int
  trip_timestamp :: string

datatype op_type = CREATE_TRIP | COMPLETE_TRIP | CREATE_CARD | ADD_FUNDS

datatype op_data =
    CreateTripData string int
  | CompleteTripData int int number
  | CreateCardData number string
  | AddFundsData int number

record operation =
  op_type :: op_type
  op_data :: op_data
  op_timestamp :: string

record failedOp =
  fo_id :: string
  fo_timestamp :: string
  fo_kioskId :: string
  fo_operation :: operation
  fo_error :: string

datatype backlog_value = Backlog "failedOp list" | Unparsable

record localStorage =
  card_balance :: "string \<rightharpoonup> number"
  card_trip :: "string \<rightharpoonup> tripData"
  failed_operations :: "backlog_value option"
  kiosk_id :: "string option"

section \<open>config/testConfig.js\<close>

text \<open>
  The build-time environment: \<open>VITE_TEST_CARD_UUID\<close>, and the station identifiers
  after \<open>parseInt\<close> (\<open>None\<close> is \<open>NaN\<close>, of an unset or non-numeric variable).
\<close>

record env =
  VITE_TEST_CARD_UUID :: "string option"
  VITE_ENTRY_STATION_ID :: "int option"
  VITE_EXIT_STATION_ID :: "int option"

record cardData =
  uuid :: string
  balance :: number

definition scanCard :: "env \<Rightarrow> localStorage \<Rightarrow> cardData option \<times> localStorage" where
  "scanCard ev ls =
     (case VITE_TEST_CARD_UUID ev of
        None \<Rightarrow> (None, ls)
      | Some u \<Rightarrow>
          if u = [] then (None, ls)
          else (case card_balance ls u of
                  Some b \<Rightarrow> (Some \<lparr>uuid = u, balance = b\<rparr>, ls)
                | None \<Rightarrow> (Some \<lparr>uuid = u, balance = 25\<rparr>,
                           ls\<lparr>card_balance := (card_balance ls)(u \<mapsto> 25)\<rparr>)))"

definition writeCardBalance :: "string \<Rightarrow> number \<Rightarrow> localStorage \<Rightarrow> localStorage" where
  "writeCardBalance u newBalance ls = ls\<lparr>card_balance := (card_balance ls)(u \<mapsto> newBalance)\<rparr>"

definition writeCardTrip :: "string \<Rightarrow> int \<Rightarrow> string \<Rightarrow> localStorage \<Rightarrow> localStorage" where
  "writeCardTrip u stationId timestamp ls =
     ls\<lparr>card_trip := (card_trip ls)(u \<mapsto> \<lparr>trip_station_id = stationId,
                                               trip_timestamp = timestamp\<rparr>)\<rparr>"

definition readCardTrip :: "string \<Rightarrow> localStorage \<Rightarrow> tripData option" where
  "readCardTrip u ls = card_trip ls u"

definition clearCardTrip :: "string \<Rightarrow> localStorage \<Rightarrow> localStorage" where
  "clearCardTrip u ls = ls\<lparr>card_trip := (card_trip ls)(u := None)\<rparr>"

section \<open>services/failedOpsWriter.js\<close>

text \<open>
  What the clock and the random generator give during one call: the identifier
  \<open>failed_<Date.now()>_<random>\<close>, the ISO time stamp of the failed operation, the
  kiosk identifier generated when none is stored, the time stamp of the export, and the
  time stamp the API wrapper puts into the operation. And what the browser does with
  the write of the backlog: it accepts it, or \<open>setItem\<close> throws (the quota is
  exceeded).
\<close>

record gen =
  gen_id :: string
  gen_now :: string
  gen_kiosk :: string
  gen_export_now :: string
  gen_op_now :: string
  gen_setItem_ok :: bool

text \<open>A file downloaded by \<open>exportToFile\<close>.\<close>

record export_file =
  exportTime :: string
  ex_kioskId :: string
  operationCount :: nat
  operations :: "failedOp list"

text \<open>
  The writer's state: its own \<open>failedOps\<close> array, and the parts of the browser it
  acts on, localStorage and the downloaded files.
\<close>

record sink =
  failedOps :: "failedOp list"
  storage :: localStorage
  downloads :: "export_file list"

definition getKioskId :: "gen \<Rightarrow> localStorage \<Rightarrow> string \<times> localStorage" where
  "getKioskId g ls =
     (case kiosk_id ls of
        Some k \<Rightarrow> if k \<noteq> [] then (k, ls)
                  else (gen_kiosk g, ls\<lparr>kiosk_id := Some (gen_kiosk g)\<rparr>)
      | None \<Rightarrow> (gen_kiosk g, ls\<lparr>kiosk_id := Some (gen_kiosk g)\<rparr>))"

text \<open>
  \<open>JSON.parse(localStorage.getItem('failed_operations') || '[]')\<close>; \<open>None\<close> when
  it throws.
\<close>

definition read_backlog :: "localStorage \<Rightarrow> failedOp list option" where
  "read_backlog ls =
     (case failed_operations ls of
        None \<Rightarrow> Some []
      | Some (Backlog xs) \<Rightarrow> Some xs
      | Some Unparsable \<Rightarrow> None)"

text \<open>The operations the persisted backlog holds: none when it cannot be read.\<close>

definition stored_operations :: "localStorage \<Rightarrow> failedOp list" where
  "stored_operations ls = (case read_backlog ls of None \<Rightarrow> [] | Some xs \<Rightarrow> xs)"

text \<open>\<open>xs.slice(-n)\<close>: the last \<open>n\<close> elements, all of them when there are fewer.\<close>

definition slice_last :: "nat \<Rightarrow> 'a list \<Rightarrow> 'a list" where
  "slice_last n xs = drop (length xs - n) xs"

text \<open>
  The body of \<open>saveToLocalStorage\<close> is one \<open>try\<close>: when reading the stored value
  or writing the new one throws, the error is logged and storage is left as it was.
\<close>

definition saveToLocalStorage :: "gen \<Rightarrow> sink \<Rightarrow> sink" where
  "saveToLocalStorage g s =
     (case read_backlog (storage s) of
        None \<Rightarrow> s
      | Some stored \<Rightarrow>
          (let existing = stored @ failedOps s;
               trimmed = slice_last 100 existing
           in if gen_setItem_ok g
              then s\<lparr>storage := (storage s)\<lparr>failed_operations := Some (Backlog trimmed)\<rparr>\<rparr>
              else s))"

text \<open>
  \<open>exportToFile(operations = null)\<close>: an array, also the empty one, is truthy, so
  \<open>this.failedOps\<close> is exported, and cleared afterwards, only when no argument is given.
\<close>

definition exportToFile :: "failedOp list option \<Rightarrow> gen \<Rightarrow> sink \<Rightarrow> sink" where
  "exportToFile ops g s =
     (let opsToExport = (case ops of None \<Rightarrow> failedOps s | Some xs \<Rightarrow> xs)
      in if opsToExport = [] then s
         else
           (let (kid, ls') = getKioskId g (storage s);
                file = \<lparr>exportTime = gen_export_now g, ex_kioskId = kid,
                        operationCount = length opsToExport, operations = opsToExport\<rparr>;
                s' = s\<lparr>storage := ls', downloads := downloads s @ [file]\<rparr>
            in if ops = None then s'\<lparr>failedOps := []\<rparr> else s'))"

definition writeFailedOperation :: "operation \<Rightarrow> gen \<Rightarrow> sink \<Rightarrow> string \<times> sink" where
  "writeFailedOperation opn g s =
     (let (kid, ls') = getKioskId g (storage s);
          failedOp = \<lparr>fo_id = gen_id g, fo_timestamp = gen_now g, fo_kioskId = kid,
                      fo_operation = opn, fo_error = ''Network unavailable''\<rparr>;
          s1 = s\<lparr>storage := ls', failedOps := failedOps s @ [failedOp]\<rparr>;
          s2 = saveToLocalStorage g s1;
          s3 = exportToFile (Some [failedOp]) g s2
      in (fo_id failedOp, s3))"

text \<open>\<open>getPendingCount\<close> returns 0 from its \<open>catch\<close>.\<close>

definition getPendingCount :: "sink \<Rightarrow> nat" where
  "getPendingCount s = (case read_backlog (storage s) of None \<Rightarrow> 0 | Some xs \<Rightarrow> length xs)"

section \<open>api/client.js and api/offlineWrapper.js\<close>

text \<open>
  The backend is reached through the HTTP client only. The model takes what the client's
  promises settle to as given: for each call, \<open>Rejected\<close> (network error, timeout or
  error status) or the resolved data; \<open>None\<close> for a card or a trip is \<open>null\<close> data.
\<close>

record fare_data =
  fd_price :: number

record card_row =
  card_id :: int

record trip_row =
  trip_id :: int

record backend =
  api_getFareBetweenStations :: "int \<Rightarrow> int \<Rightarrow> fare_data response"
  api_createTrip :: "string \<Rightarrow> int \<Rightarrow> trip_row response"
  api_getCardByUuid :: "string \<Rightarrow> card_row option response"
  api_getActiveTrip :: "int \<Rightarrow> trip_row option response"
  api_completeTrip :: "int \<Rightarrow> int \<Rightarrow> number \<Rightarrow> unit response"

text \<open>Every call rejects: the backend is unreachable.\<close>

definition unreachable :: backend where
  "unreachable = \<lparr>
     api_getFareBetweenStations = (\<lambda>a b. Rejected),
     api_createTrip = (\<lambda>u st. Rejected),
     api_getCardByUuid = (\<lambda>u. Rejected),
     api_getActiveTrip = (\<lambda>c. Rejected),
     api_completeTrip = (\<lambda>t d f. Rejected)\<rparr>"

text \<open>
  The write wrappers resolve in both branches; the scanner service ignores the resolved
  value, so the model returns the sink only.
\<close>

definition createTrip :: "backend \<Rightarrow> gen \<Rightarrow> string \<Rightarrow> int \<Rightarrow> sink \<Rightarrow> sink" where
  "createTrip be g cardUuid stationId s =
     (case api_createTrip be cardUuid stationId of
        Resolved r \<Rightarrow> s
      | Rejected \<Rightarrow>
          snd (writeFailedOperation
                 \<lparr>op_type = CREATE_TRIP, op_data = CreateTripData cardUuid stationId,
                  op_timestamp = gen_op_now g\<rparr> g s))"

definition completeTrip :: "backend \<Rightarrow> gen \<Rightarrow> int \<Rightarrow> int \<Rightarrow> number \<Rightarrow> sink \<Rightarrow> sink" where
  "completeTrip be g tripId destinationStationId finalCost s =
     (case api_completeTrip be tripId destinationStationId finalCost of
        Resolved r \<Rightarrow> s
      | Rejected \<Rightarrow>
          snd (writeFailedOperation
                 \<lparr>op_type = COMPLETE_TRIP,
                  op_data = CompleteTripData tripId destinationStationId finalCost,
                  op_timestamp = gen_op_now g\<rparr> g s))"

definition getFareBetweenStations ::
  "backend \<Rightarrow> int \<Rightarrow> int \<Rightarrow> configManager \<Rightarrow> fare_data \<times> configManager" where
  "getFareBetweenStations be stationAId stationBId cm =
     (case api_getFareBetweenStations be stationAId stationBId of
        Resolved r \<Rightarrow> (r, cm)
      | Rejected \<Rightarrow>
          (let (p, cm') = getPricing cm stationAId stationBId in (\<lparr>fd_price = p\<rparr>, cm')))"

definition getCardByUuid :: "backend \<Rightarrow> string \<Rightarrow> card_row option" where
  "getCardByUuid be u =
     (case api_getCardByUuid be u of Resolved r \<Rightarrow> r | Rejected \<Rightarrow> None)"

definition getActiveTrip :: "backend \<Rightarrow> int \<Rightarrow> trip_row option" where
  "getActiveTrip be cardId =
     (case api_getActiveTrip be cardId of Resolved r \<Rightarrow> r | Rejected \<Rightarrow> None)"

section \<open>stores/fareStore.js\<close>

text \<open>
  The cache key is the string \<open><a>-<b>\<close> of the two identifiers, lower first; the
  model keeps the ordered pair.
\<close>

record fareStore =
  fs_minimumFare :: "number option"
  fareCache :: "(int \<times> int) \<rightharpoonup> number"
  loading :: bool
  fs_error :: "string option"

definition cacheKey :: "int \<Rightarrow> int \<Rightarrow> int \<times> int" where
  "cacheKey a b = (if a < b then (a, b) else (b, a))"

fun cache_all :: "pricing_entry list \<Rightarrow> ((int \<times> int) \<rightharpoonup> number) \<Rightarrow> ((int \<times> int) \<rightharpoonup> number)" where
  "cache_all [] c = c"
| "cache_all (p # ps) c = cache_all ps (c(cacheKey (stationA p) (stationB p) \<mapsto> fare p))"

definition initializeFromConfig :: "configManager \<Rightarrow> fareStore \<Rightarrow> fareStore \<times> configManager" where
  "initializeFromConfig cm fs =
     (let (m, cm') = getMinimumFare cm;
          pricing' = (case config cm' of None \<Rightarrow> [] | Some c \<Rightarrow> pricing c)
      in (fs\<lparr>fs_minimumFare := Some m, fareCache := cache_all pricing' (fareCache fs)\<rparr>, cm'))"

definition fs_getMinimumFare :: "fareStore \<Rightarrow> number option" where
  "fs_getMinimumFare fs = fs_minimumFare fs"

text \<open>
  \<open>fetchFareBetweenStations\<close> returns the fare, or \<open>null\<close> from its \<open>catch\<close>; the
  wrapper it calls never rejects, so the model has no such branch.
\<close>

definition fetchFareBetweenStations ::
  "backend \<Rightarrow> int \<Rightarrow> int \<Rightarrow> fareStore \<times> configManager \<Rightarrow>
     number option \<times> fareStore \<times> configManager" where
  "fetchFareBetweenStations be stationAId stationBId st =
     (let (fs, cm) = st; key = cacheKey stationAId stationBId
      in case fareCache fs key of
           Some v \<Rightarrow> (Some v, fs, cm)
         | None \<Rightarrow>
             (let (d, cm') = getFareBetweenStations be stationAId stationBId cm
              in (Some (fd_price d),
                  fs\<lparr>fareCache := (fareCache fs)(key \<mapsto> fd_price d),
                     loading := False, fs_error := None\<rparr>, cm')))"

section \<open>services/scannerService.js\<close>

text \<open>
  The state the handlers act on: the failure sink with the browser's storage, the fare
  store and the config manager. A handler returns the object it resolves with and the
  state once the calls it started without awaiting have settled; \<open>navigate\<close> is the
  path it pushes to the router.
\<close>

record kiosk =
  k_sink :: sink
  k_fares :: fareStore
  k_config :: configManager

record scan_result =
  success :: bool
  scannerState :: string
  errorMessage :: "string option"
  isInsufficientBalance :: "bool option"
  lastScannedCard :: "cardData option"
  timeout :: "nat option"
  navigate :: "string option"

definition scan_error :: "string \<Rightarrow> scan_result" where
  "scan_error msg = \<lparr>success = False, scannerState = ''error'', errorMessage = Some msg,
     isInsufficientBalance = Some False, lastScannedCard = None, timeout = Some 5000,
     navigate = None\<rparr>"

definition scan_insufficient :: "string \<Rightarrow> cardData \<Rightarrow> scan_result" where
  "scan_insufficient msg cd = \<lparr>success = False, scannerState = ''error'',
     errorMessage = Some msg, isInsufficientBalance = Some True, lastScannedCard = Some cd,
     timeout = Some 5000, navigate = None\<rparr>"

definition scan_success :: "string \<Rightarrow> scan_result" where
  "scan_success path = \<lparr>success = True, scannerState = ''success'', errorMessage = None,
     isInsufficientBalance = None, lastScannedCard = None, timeout = None,
     navigate = Some path\<rparr>"

text \<open>
  \<open>this.exitStationId || parseInt(import.meta.env.VITE_EXIT_STATION_ID)\<close>, and the
  same for the entry station: \<open>undefined\<close> and \<open>0\<close> on the left are falsy. The
  handlers then test \<open>!exitStationId\<close>, true of \<open>NaN\<close> and of \<open>0\<close>.
\<close>

definition or_station :: "int option \<Rightarrow> int option \<Rightarrow> int option" where
  "or_station a b = (case a of None \<Rightarrow> b | Some n \<Rightarrow> if n \<noteq> 0 then Some n else b)"

text \<open>\<open>balance < minimumFare\<close> where the minimum fare may still be \<open>null\<close>, which compares as 0.\<close>

definition lt_nullable :: "number \<Rightarrow> number option \<Rightarrow> bool" where
  "lt_nullable b m = (case m of None \<Rightarrow> b < 0 | Some v \<Rightarrow> b < v)"

definition insufficient_message :: "number \<Rightarrow> number \<Rightarrow> string" where
  "insufficient_message fare' balance' =
     ''Insufficient balance'' @ [CHR 0x0A, CHR 0x0A] @
     ''Fare: $'' @ toFixed2 fare' @ [CHR 0x0A] @
     ''Balance: $'' @ toFixed2 balance' @ [CHR 0x0A] @
     ''Short: $'' @ toFixed2 (js_sub fare' balance')"

text \<open>
  The chain started after the local exit: look the card up, then its active trip, then
  complete the trip. A \<open>null\<close> card or trip ends the chain.
\<close>

definition complete_in_backend ::
  "backend \<Rightarrow> gen \<Rightarrow> string \<Rightarrow> int \<Rightarrow> number \<Rightarrow> sink \<Rightarrow> sink" where
  "complete_in_backend be g u exitStationId fare' s =
     (case getCardByUuid be u of
        None \<Rightarrow> s
      | Some card' \<Rightarrow>
          (case getActiveTrip be (card_id card') of
             None \<Rightarrow> s
           | Some activeTrip \<Rightarrow> completeTrip be g (trip_id activeTrip) exitStationId fare' s))"

definition handleScanToExit ::
  "env \<Rightarrow> backend \<Rightarrow> gen \<Rightarrow> int option \<Rightarrow> kiosk \<Rightarrow> scan_result \<times> kiosk" where
  "handleScanToExit ev be g this_exitStationId k =
     (case scanCard ev (storage (k_sink k)) of
        (None, ls) \<Rightarrow> (scan_error ''No test card configured'', k)
      | (Some cd, ls1) \<Rightarrow>
          (let k1 = k\<lparr>k_sink := (k_sink k)\<lparr>storage := ls1\<rparr>\<rparr> in
           case readCardTrip (uuid cd) ls1 of
             None \<Rightarrow> (scan_success ''/exit'', k1)
           | Some tripData \<Rightarrow>
               (case or_station this_exitStationId (VITE_EXIT_STATION_ID ev) of
                  None \<Rightarrow> (scan_error ''No exit station ID configured'', k1)
                | Some exitStationId \<Rightarrow>
                    if exitStationId = 0
                    then (scan_error ''No exit station ID configured'', k1)
                    else
                      (let (fare_opt, fs', cm') =
                             fetchFareBetweenStations be (trip_station_id tripData)
                               exitStationId (k_fares k1, k_config k1);
                           k2 = k1\<lparr>k_fares := fs', k_config := cm'\<rparr>
                       in case fare_opt of
                            None \<Rightarrow> (scan_error ''Unable to calculate fare'', k2)
                          | Some fare' \<Rightarrow>
                              if balance cd < fare'
                              then (scan_insufficient
                                      (insufficient_message fare' (balance cd)) cd, k2)
                              else
                                (let newBalance = js_sub (balance cd) fare';
                                     ls2 = writeCardBalance (uuid cd) newBalance
                                             (storage (k_sink k2));
                                     ls3 = clearCardTrip (uuid cd) ls2;
                                     s3 = (k_sink k2)\<lparr>storage := ls3\<rparr>;
                                     s4 = complete_in_backend be g (uuid cd) exitStationId
                                            fare' s3
                                 in (scan_success ''/exit'', k2\<lparr>k_sink := s4\<rparr>))))))"

definition handleDefaultScan ::
  "env \<Rightarrow> backend \<Rightarrow> gen \<Rightarrow> string \<Rightarrow> int option \<Rightarrow> kiosk \<Rightarrow> scan_result \<times> kiosk" where
  "handleDefaultScan ev be g entryTimestamp this_entryStationId k =
     (case scanCard ev (storage (k_sink k)) of
        (None, ls) \<Rightarrow> (scan_error ''No test card configured'', k)
      | (Some cd, ls1) \<Rightarrow>
          (let k1 = k\<lparr>k_sink := (k_sink k)\<lparr>storage := ls1\<rparr>\<rparr> in
           case or_station this_entryStationId (VITE_ENTRY_STATION_ID ev) of
             None \<Rightarrow> (scan_error ''No entry station ID configured'', k1)
           | Some entryStationId \<Rightarrow>
               if entryStationId = 0
               then (scan_error ''No entry station ID configured'', k1)
               else
                 (let minimumFare' = fs_getMinimumFare (k_fares k1) in
                  if lt_nullable (balance cd) minimumFare'
                  then (scan_insufficient ''Insufficient balance'' cd, k1)
                  else
                    (let ls2 = writeCardTrip (uuid cd) entryStationId entryTimestamp
                                 (storage (k_sink k1));
                         s2 = (k_sink k1)\<lparr>storage := ls2\<rparr>;
                         s3 = createTrip be g (uuid cd) entryStationId s2
                     in (scan_success ''/enter'', k1\<lparr>k_sink := s3\<rparr>)))))"

section \<open>The card state held in the ledger\<close>

text \<open>
  What a scan reads for a card: the stored balance, or the default 25.00 the first scan
  of an unknown card stores, and the trip in progress if there is one.
\<close>

record cardState =
  cs_balance :: number
  cs_activeTrip :: "tripData option"

definition readCard :: "string \<Rightarrow> localStorage \<Rightarrow> cardState" where
  "readCard u ls =
     \<lparr>cs_balance = (case card_balance ls u of None \<Rightarrow> 25 | Some b \<Rightarrow> b),
      cs_activeTrip = card_trip ls u\<rparr>"

datatype trip_state = IDLE | ACTIVE

definition trip_state_of :: "string \<Rightarrow> localStorage \<Rightarrow> trip_state" where
  "trip_state_of u ls = (case card_trip ls u of None \<Rightarrow> IDLE | Some t \<Rightarrow> ACTIVE)"

section \<open>States used to evaluate the code\<close>

text \<open>A manager whose table, as built from a backend response, has a free transfer.\<close>

definition zero_fare_manager :: configManager where
  "zero_fare_manager =
     \<lparr>config = Some \<lparr>stations = JArr [station_obj 1 ''Central Station'',
                                      station_obj 2 ''Union Square''],
                      pricing = [\<lparr>stationA = 1, stationB = 2, fare = 0\<rparr>],
                      minimumFare = 9/4\<rparr>,
      startedOffline = False\<rparr>"







text \<open>
  A backlog of 100 operations recorded earlier, the oldest first, in the storage of a
  browser whose writer has just been loaded.
\<close>

definition old_failedOp :: "nat \<Rightarrow> failedOp" where
  "old_failedOp i =
     \<lparr>fo_id = ''failed_0_'' @ digits10 i, fo_timestamp = ''2025-09-27T08:00:00.000Z'',
      fo_kioskId = ''kiosk_1_k'',
      fo_operation = \<lparr>op_type = ADD_FUNDS, op_data = AddFundsData (int i) 5,
                       op_timestamp = ''2025-09-27T08:00:00.000Z''\<rparr>,
      fo_error = ''Network unavailable''\<rparr>"

definition full_backlog :: "failedOp list" where
  "full_backlog = map old_failedOp [0..<100]"

definition full_sink :: sink where
  "full_sink = \<lparr>failedOps = [],
                 storage = \<lparr>card_balance = Map.empty, card_trip = Map.empty,
                             failed_operations = Some (Backlog full_backlog),
                             kiosk_id = Some ''kiosk_1_k''\<rparr>,
                 downloads = []\<rparr>"

text \<open>A fresh writer in a browser with nothing stored, and two calls' worth of clock readings.\<close>

definition new_sink :: sink where
  "new_sink = \<lparr>failedOps = [],
                storage = \<lparr>card_balance = Map.empty, card_trip = Map.empty,
                            failed_operations = None, kiosk_id = None\<rparr>,
                downloads = []\<rparr>"

definition gen1 :: gen where
  "gen1 = \<lparr>gen_id = ''failed_1_a'', gen_now = ''2025-09-28T10:00:00.000Z'',
            gen_kiosk = ''kiosk_1_k'', gen_export_now = ''2025-09-28T10:00:00.001Z'',
            gen_op_now = ''2025-09-28T10:00:00.000Z'', gen_setItem_ok = True\<rparr>"

definition gen2 :: gen where
  "gen2 = \<lparr>gen_id = ''failed_2_b'', gen_now = ''2025-09-28T11:00:00.000Z'',
            gen_kiosk = ''kiosk_2_k'', gen_export_now = ''2025-09-28T11:00:00.001Z'',
            gen_op_now = ''2025-09-28T11:00:00.000Z'', gen_setItem_ok = True\<rparr>"

definition op1 :: operation where
  "op1 = \<lparr>op_type = CREATE_TRIP, op_data = CreateTripData ''card-1'' 1,
           op_timestamp = ''2025-09-28T10:00:00.000Z''\<rparr>"

definition op2 :: operation where
  "op2 = \<lparr>op_type = ADD_FUNDS, op_data = AddFundsData 7 20,
           op_timestamp = ''2025-09-28T11:00:00.000Z''\<rparr>"

text \<open>The operation record writeFailedOperation builds.\<close>

definition new_failedOp :: "operation \<Rightarrow> gen \<Rightarrow> sink \<Rightarrow> failedOp" where
  "new_failedOp opn g s =
     \<lparr>fo_id = gen_id g, fo_timestamp = gen_now g, fo_kioskId = fst (getKioskId g (storage s)),
      fo_operation = opn, fo_error = ''Network unavailable''\<rparr>"

text \<open>
  A kiosk booted with the backend unreachable, holding one card with balance 25.00:
  riding from station 1, or idle.
\<close>

definition new_fareStore :: fareStore where
  "new_fareStore = \<lparr>fs_minimumFare = None, fareCache = Map.empty, loading = False,
                      fs_error = None\<rparr>"

definition test_env :: env where
  "test_env = \<lparr>VITE_TEST_CARD_UUID = Some ''card-1'', VITE_ENTRY_STATION_ID = Some 1,
                VITE_EXIT_STATION_ID = Some 2\<rparr>"

definition offline_config :: configManager where
  "offline_config = initialize_catch new_ConfigManager"

definition offline_fares :: fareStore where
  "offline_fares = fst (initializeFromConfig offline_config new_fareStore)"

definition riding_kiosk :: kiosk where
  "riding_kiosk =
     \<lparr>k_sink = \<lparr>failedOps = [],
                 storage = \<lparr>card_balance = [''card-1'' \<mapsto> 25],
                             card_trip = [''card-1'' \<mapsto>
                               \<lparr>trip_station_id = 1,
                                trip_timestamp = ''2025-09-28T09:30:00.000Z''\<rparr>],
                             failed_operations = None, kiosk_id = Some ''kiosk_1_k''\<rparr>,
                 downloads = []\<rparr>,
      k_fares = offline_fares,
      k_config = offline_config\<rparr>"

definition idle_kiosk :: kiosk where
  "idle_kiosk =
     \<lparr>k_sink = \<lparr>failedOps = [],
                 storage = \<lparr>card_balance = [''card-1'' \<mapsto> 25], card_trip = Map.empty,
                             failed_operations = None, kiosk_id = Some ''kiosk_1_k''\<rparr>,
                 downloads = []\<rparr>,
      k_fares = offline_fares,
      k_config = offline_config\<rparr>"

text \<open>
  Cards whose amounts are not multiples of a quarter: balance 25.10 or 2.10 as doubles,
  riding from station 1, with the fare 3.20 to station 2 cached from the backend.
\<close>

definition decimal_fares :: fareStore where
  "decimal_fares = \<lparr>fs_minimumFare = Some (9/4), fareCache = [(1, 2) \<mapsto> round_double (16/5)],
                      loading = False, fs_error = None\<rparr>"

definition decimal_kiosk :: kiosk where
  "decimal_kiosk =
     \<lparr>k_sink = \<lparr>failedOps = [],
                 storage = \<lparr>card_balance = [''card-1'' \<mapsto> round_double (251/10)],
                             card_trip = [''card-1'' \<mapsto>
                               \<lparr>trip_station_id = 1,
                                trip_timestamp = ''2025-09-28T09:30:00.000Z''\<rparr>],
                             failed_operations = None, kiosk_id = Some ''kiosk_1_k''\<rparr>,
                 downloads = []\<rparr>,
      k_fares = decimal_fares,
      k_config = offline_config\<rparr>"

definition short_kiosk :: kiosk where
  "short_kiosk =
     \<lparr>k_sink = \<lparr>failedOps = [],
                 storage = \<lparr>card_balance = [''card-1'' \<mapsto> round_double (21/10)],
                             card_trip = [''card-1'' \<mapsto>
                               \<lparr>trip_station_id = 1,
                                trip_timestamp = ''2025-09-28T09:30:00.000Z''\<rparr>],
                             failed_operations = None, kiosk_id = Some ''kiosk_1_k''\<rparr>,
                 downloads = []\<rparr>,
      k_fares = decimal_fares,
      k_config = offline_config\<rparr>"

section \<open>The config provider\<close>

lemma loadStaticConfig_config: "config (loadStaticConfig cm) = Some transitConfig"
  by (simp add: loadStaticConfig_def)


lemma initialize_unreachable:
  "initialize Rejected Rejected Rejected new_ConfigManager = Loaded offline_config"
  by (simp add: initialize_def offline_config_def)









section \<open>The fare resolver\<close>

lemma pair_matches_commute: "pair_matches a b = pair_matches b a"
  by (auto simp: pair_matches_def fun_eq_iff)

text \<open>
  Claim C6. The fare lookup is symmetric in its two station arguments, whatever the
  manager holds; with the static snapshot loaded, the fare between stations 1 and 2 is
  3.25 in both orders.
\<close>

theorem getPricing_symmetric:
  "getPricing cm a b = getPricing cm b a \<and>
   fst (getPricing (loadStaticConfig cm) 1 2) = 13/4 \<and>
   fst (getPricing (loadStaticConfig cm) 2 1) = 13/4"
  by (simp add: getPricing_def pair_matches_commute [of a b] ensureConfig_def
        loadStaticConfig_def transitConfig_def pair_matches_def)

lemma getMinimumFare_fst:
  "fst (getMinimumFare cm) = or_num (Some (minimumFare (fareTable cm))) (9/4)"
  by (simp add: getMinimumFare_def ensureConfig_def loadStaticConfig_def fareTable_def or_num_def
        transitConfig_def split: option.splits)

lemma getPricing_fst:
  "fst (getPricing cm a b) =
     (case find (pair_matches a b) (pricing (fareTable cm)) of
        None \<Rightarrow> fst (getMinimumFare cm)
      | Some p \<Rightarrow> if fare p \<noteq> 0 then fare p else fst (getMinimumFare cm))"
  by (cases "config cm")
     (auto simp: getPricing_def ensureConfig_def loadStaticConfig_def fareTable_def
        getMinimumFare_def split: option.splits)

text \<open>
  Claim C5, as stated, at a table that holds the pair (1, 2) with fare 0: the lookup
  does not return the matched entry's fare but the minimum fare, 2.25.
\<close>

theorem getPricing_zero_fare_counterexample:
  "find (pair_matches 1 2) (pricing (fareTable zero_fare_manager))
     = Some \<lparr>stationA = 1, stationB = 2, fare = 0\<rparr> \<and>
   fst (getPricing zero_fare_manager 1 2) = 9/4 \<and>
   fst (getPricing zero_fare_manager 1 2) \<noteq> fare \<lparr>stationA = 1, stationB = 2, fare = 0\<rparr>"
  by (simp add: getPricing_fst getMinimumFare_fst zero_fare_manager_def fareTable_def
        pair_matches_def or_num_def)

text \<open>
  Claim C5, amended. For every pair of station identifiers the lookup returns a fare:
  the fare of the first entry that matches the unordered pair when that fare is not
  zero, and the result of \<open>getMinimumFare\<close> when no entry matches or the matched fare
  is zero (\<open>found?.fare || this.getMinimumFare()\<close>). \<open>getMinimumFare\<close> is the
  table's minimum fare whenever that is not zero. The function has no error path.
\<close>

theorem getPricing_matched_or_minimum:
  "(find (pair_matches a b) (pricing (fareTable cm)) = Some p \<and> fare p \<noteq> 0 \<longrightarrow>
      fst (getPricing cm a b) = fare p) \<and>
   (find (pair_matches a b) (pricing (fareTable cm)) = Some p \<and> fare p = 0 \<longrightarrow>
      fst (getPricing cm a b) = fst (getMinimumFare cm)) \<and>
   ((\<forall>q \<in> set (pricing (fareTable cm)). \<not> pair_matches a b q) \<longrightarrow>
      fst (getPricing cm a b) = fst (getMinimumFare cm)) \<and>
   (minimumFare (fareTable cm) \<noteq> 0 \<longrightarrow> fst (getMinimumFare cm) = minimumFare (fareTable cm))"
proof -
  have absent: "find (pair_matches a b) (pricing (fareTable cm)) = None"
    if "\<forall>q \<in> set (pricing (fareTable cm)). \<not> pair_matches a b q"
    using that by (simp add: find_None_iff)
  show ?thesis
    by (auto simp: getPricing_fst getMinimumFare_fst or_num_def absent)
qed

text \<open>
  The theorem on the snapshot with the pair given in reverse order, and on the table
  with the free transfer: a matched zero fare and an absent pair.
\<close>

theorem getPricing_matched_or_minimum_witness:
  "find (pair_matches 2 1) (pricing (fareTable new_ConfigManager))
     = Some \<lparr>stationA = 1, stationB = 2, fare = 13/4\<rparr> \<and>
   fst (getPricing new_ConfigManager 2 1) = 13/4 \<and>
   find (pair_matches 1 2) (pricing (fareTable zero_fare_manager))
     = Some \<lparr>stationA = 1, stationB = 2, fare = 0\<rparr> \<and>
   fst (getPricing zero_fare_manager 1 2) = fst (getMinimumFare zero_fare_manager) \<and>
   find (pair_matches 2 2) (pricing (fareTable zero_fare_manager)) = None \<and>
   fst (getPricing zero_fare_manager 2 2) = fst (getMinimumFare zero_fare_manager) \<and>
   fst (getMinimumFare zero_fare_manager) = 9/4"
  using getPricing_matched_or_minimum [where cm = new_ConfigManager and a = 2 and b = 1
      and p = "\<lparr>stationA = 1, stationB = 2, fare = 13/4\<rparr>"]
    getPricing_matched_or_minimum [where cm = zero_fare_manager and a = 1 and b = 2
      and p = "\<lparr>stationA = 1, stationB = 2, fare = 0\<rparr>"]
    getPricing_matched_or_minimum [where cm = zero_fare_manager and a = 2 and b = 2]
  by (simp add: fareTable_def new_ConfigManager_def zero_fare_manager_def transitConfig_def
        pair_matches_def)

section \<open>The durable failure sink\<close>

lemma getKioskId_cases:
  "getKioskId g ls = (k, ls') \<Longrightarrow>
     card_balance ls' = card_balance ls \<and> card_trip ls' = card_trip ls \<and>
     failed_operations ls' = failed_operations ls"
  by (auto simp: getKioskId_def split: option.splits if_splits)

lemma read_backlog_getKioskId:
  "read_backlog (snd (getKioskId g ls)) = read_backlog ls"
  by (auto simp: getKioskId_def read_backlog_def split: option.splits)

lemma stored_getKioskId:
  "stored_operations (snd (getKioskId g ls)) = stored_operations ls"
  by (simp add: stored_operations_def read_backlog_getKioskId)

lemma stored_operations_cards:
  "stored_operations (ls\<lparr>card_balance := b\<rparr>) = stored_operations ls"
  "stored_operations (ls\<lparr>card_trip := t\<rparr>) = stored_operations ls"
  by (simp_all add: stored_operations_def read_backlog_def)

lemma saveToLocalStorage_fields:
  "failedOps (saveToLocalStorage g s) = failedOps s"
  "downloads (saveToLocalStorage g s) = downloads s"
  "card_balance (storage (saveToLocalStorage g s)) = card_balance (storage s)"
  "card_trip (storage (saveToLocalStorage g s)) = card_trip (storage s)"
  "kiosk_id (storage (saveToLocalStorage g s)) = kiosk_id (storage s)"
  by (simp_all add: saveToLocalStorage_def Let_def split: option.splits)

lemma saveToLocalStorage_stored:
  "read_backlog (storage s) = Some xs \<Longrightarrow> gen_setItem_ok g \<Longrightarrow>
     read_backlog (storage (saveToLocalStorage g s)) = Some (slice_last 100 (xs @ failedOps s))"
  by (simp add: saveToLocalStorage_def read_backlog_def Let_def)

lemma saveToLocalStorage_thrown:
  "read_backlog (storage s) = None \<or> \<not> gen_setItem_ok g \<Longrightarrow> saveToLocalStorage g s = s"
  by (auto simp: saveToLocalStorage_def Let_def split: option.splits)

lemma exportToFile_fields:
  "failedOps (exportToFile (Some xs) g s) = failedOps s"
  "read_backlog (storage (exportToFile ops g s)) = read_backlog (storage s)"
  "failed_operations (storage (exportToFile ops g s)) = failed_operations (storage s)"
  "card_balance (storage (exportToFile ops g s)) = card_balance (storage s)"
  "card_trip (storage (exportToFile ops g s)) = card_trip (storage s)"
proof -
  obtain kid ls' where k: "getKioskId g (storage s) = (kid, ls')"
    by (cases "getKioskId g (storage s)")
  from read_backlog_getKioskId [of g "storage s"] k
  have r: "read_backlog ls' = read_backlog (storage s)" by simp
  note c = getKioskId_cases [OF k]
  show "failedOps (exportToFile (Some xs) g s) = failedOps s"
    using k by (simp add: exportToFile_def Let_def)
  show "read_backlog (storage (exportToFile ops g s)) = read_backlog (storage s)"
    using k r by (simp add: exportToFile_def Let_def)
  show "failed_operations (storage (exportToFile ops g s)) = failed_operations (storage s)"
    using k c by (simp add: exportToFile_def Let_def)
  show "card_balance (storage (exportToFile ops g s)) = card_balance (storage s)"
    using k c by (simp add: exportToFile_def Let_def)
  show "card_trip (storage (exportToFile ops g s)) = card_trip (storage s)"
    using k c by (simp add: exportToFile_def Let_def)
qed

lemma writeFailedOperation_failedOps:
  "failedOps (snd (writeFailedOperation opn g s)) = failedOps s @ [new_failedOp opn g s]"
  by (simp add: writeFailedOperation_def exportToFile_fields saveToLocalStorage_fields
        new_failedOp_def Let_def split: prod.splits)

lemma writeFailedOperation_stored:
  assumes "read_backlog (storage s) = Some xs" and "gen_setItem_ok g"
  shows "stored_operations (storage (snd (writeFailedOperation opn g s)))
     = slice_last 100 (xs @ failedOps s @ [new_failedOp opn g s])"
proof -
  obtain kid ls' where k: "getKioskId g (storage s) = (kid, ls')"
    by (cases "getKioskId g (storage s)")
  from read_backlog_getKioskId [of g "storage s"] k assms(1)
  have r: "read_backlog ls' = Some xs" by simp
  let ?f = "\<lparr>fo_id = gen_id g, fo_timestamp = gen_now g, fo_kioskId = kid,
             fo_operation = opn, fo_error = ''Network unavailable''\<rparr>"
  let ?s1 = "s\<lparr>storage := ls', failedOps := failedOps s @ [?f]\<rparr>"
  have "read_backlog (storage (saveToLocalStorage g ?s1))
          = Some (slice_last 100 (xs @ failedOps ?s1))"
    by (rule saveToLocalStorage_stored) (simp_all add: r assms(2))
  then show ?thesis
    using k
    by (simp add: writeFailedOperation_def exportToFile_fields new_failedOp_def
          stored_operations_def Let_def)
qed

lemma writeFailedOperation_not_stored:
  assumes "read_backlog (storage s) = None \<or> \<not> gen_setItem_ok g"
  shows "failed_operations (storage (snd (writeFailedOperation opn g s)))
     = failed_operations (storage s)"
proof -
  obtain kid ls' where k: "getKioskId g (storage s) = (kid, ls')"
    by (cases "getKioskId g (storage s)")
  from read_backlog_getKioskId [of g "storage s"] k
  have r: "read_backlog ls' = read_backlog (storage s)" by simp
  let ?f = "\<lparr>fo_id = gen_id g, fo_timestamp = gen_now g, fo_kioskId = kid,
             fo_operation = opn, fo_error = ''Network unavailable''\<rparr>"
  let ?s1 = "s\<lparr>storage := ls', failedOps := failedOps s @ [?f]\<rparr>"
  have "saveToLocalStorage g ?s1 = ?s1"
    by (rule saveToLocalStorage_thrown) (use assms r in simp)
  then show ?thesis
    using k getKioskId_cases [OF k]
    by (simp add: writeFailedOperation_def exportToFile_fields Let_def)
qed

lemma slice_last_length: "length (slice_last n xs) \<le> n"
  by (simp add: slice_last_def)

lemma full_backlog_length: "length full_backlog = 100"
  by (simp add: full_backlog_def)

lemma old_failedOp_inj: "old_failedOp i = old_failedOp j \<longleftrightarrow> i = j"
  by (auto simp: old_failedOp_def simp del: digits10.simps)

lemma full_backlog_distinct: "distinct full_backlog"
  by (simp add: full_backlog_def distinct_map inj_on_def old_failedOp_inj)

lemma full_backlog_drop: "set (drop n full_backlog) = old_failedOp ` {n..<100}"
  by (simp add: full_backlog_def drop_map drop_upt)

text \<open>
  Claim C9 at two calls on a backlog that holds 100 operations, in a browser session
  that recorded nothing before: the cap holds, the persisted backlog has 100 entries,
  but they are not the 100 most recent operations. The 100 most recent are the two new
  operations and the 98 stored last; the code keeps the first new operation twice and
  drops the stored operation 2, the oldest of those 98. The comment in
  \<open>saveToLocalStorage\<close> reads ``Keep only last 100 operations''. The in-memory array,
  which \<open>writeFailedOperation\<close> never clears, is appended again on every call, and each
  repeated entry takes the place of a stored operation.
\<close>

theorem record_twice_evicts_recent_operation:
  "stored_operations (storage (snd (writeFailedOperation op2 gen2
        (snd (writeFailedOperation op1 gen1 full_sink)))))
     = drop 3 full_backlog @
       [\<lparr>fo_id = ''failed_1_a'', fo_timestamp = ''2025-09-28T10:00:00.000Z'',
         fo_kioskId = ''kiosk_1_k'', fo_operation = op1, fo_error = ''Network unavailable''\<rparr>,
        \<lparr>fo_id = ''failed_1_a'', fo_timestamp = ''2025-09-28T10:00:00.000Z'',
         fo_kioskId = ''kiosk_1_k'', fo_operation = op1, fo_error = ''Network unavailable''\<rparr>,
        \<lparr>fo_id = ''failed_2_b'', fo_timestamp = ''2025-09-28T11:00:00.000Z'',
         fo_kioskId = ''kiosk_1_k'', fo_operation = op2, fo_error = ''Network unavailable''\<rparr>] \<and>
   stored_operations (storage full_sink) = full_backlog \<and>
   length full_backlog = 100 \<and> distinct full_backlog \<and>
   full_backlog ! 2 = old_failedOp 2 \<and>
   getPendingCount (snd (writeFailedOperation op2 gen2
        (snd (writeFailedOperation op1 gen1 full_sink)))) = 100 \<and>
   old_failedOp 2 \<notin> set (stored_operations (storage (snd (writeFailedOperation op2 gen2
        (snd (writeFailedOperation op1 gen1 full_sink)))))) \<and>
   \<not> distinct (stored_operations (storage (snd (writeFailedOperation op2 gen2
        (snd (writeFailedOperation op1 gen1 full_sink))))))"
proof -
  let ?f1 = "\<lparr>fo_id = ''failed_1_a'', fo_timestamp = ''2025-09-28T10:00:00.000Z'',
         fo_kioskId = ''kiosk_1_k'', fo_operation = op1, fo_error = ''Network unavailable''\<rparr>"
  let ?f2 = "\<lparr>fo_id = ''failed_2_b'', fo_timestamp = ''2025-09-28T11:00:00.000Z'',
         fo_kioskId = ''kiosk_1_k'', fo_operation = op2, fo_error = ''Network unavailable''\<rparr>"
  let ?s1 = "snd (writeFailedOperation op1 gen1 full_sink)"
  let ?s2 = "snd (writeFailedOperation op2 gen2 ?s1)"
  have s1: "?s1 = \<lparr>failedOps = [?f1],
                    storage = \<lparr>card_balance = Map.empty, card_trip = Map.empty,
                                failed_operations = Some (Backlog (drop 1 full_backlog @ [?f1])),
                                kiosk_id = Some ''kiosk_1_k''\<rparr>,
                    downloads = [\<lparr>exportTime = ''2025-09-28T10:00:00.001Z'',
                                  ex_kioskId = ''kiosk_1_k'', operationCount = 1,
                                  operations = [?f1]\<rparr>]\<rparr>"
    by (simp add: writeFailedOperation_def exportToFile_def saveToLocalStorage_def
          getKioskId_def read_backlog_def full_sink_def gen1_def slice_last_def
          full_backlog_length Let_def)
  have stored: "stored_operations (storage ?s2) = drop 3 full_backlog @ [?f1, ?f1, ?f2]"
    unfolding s1
    by (simp add: writeFailedOperation_def exportToFile_def saveToLocalStorage_def
          getKioskId_def read_backlog_def stored_operations_def gen2_def slice_last_def
          full_backlog_length Let_def)
  have before: "stored_operations (storage full_sink) = full_backlog"
    by (simp add: stored_operations_def read_backlog_def full_sink_def)
  have third: "full_backlog ! 2 = old_failedOp 2"
    by (simp add: full_backlog_def numeral_2_eq_2)
  have count: "getPendingCount ?s2 = length (stored_operations (storage ?s2))"
    by (simp add: getPendingCount_def stored_operations_def split: option.splits)
  have evicted: "old_failedOp 2 \<notin> set (drop 3 full_backlog @ [?f1, ?f1, ?f2])"
  proof -
    have "old_failedOp 2 \<notin> set (drop 3 full_backlog)"
      by (auto simp: full_backlog_drop old_failedOp_inj)
    moreover have "old_failedOp 2 \<noteq> ?f1" "old_failedOp 2 \<noteq> ?f2"
      by (simp_all add: old_failedOp_def del: digits10.simps)
    ultimately show ?thesis by simp
  qed
  from stored before third count evicted full_backlog_length full_backlog_distinct
  show ?thesis by simp
qed

text \<open>
  Claim C10 at two calls from an empty backlog: the persisted backlog holds three
  operations, the first one twice. \<open>saveToLocalStorage\<close> appends the whole in-memory
  array to what is stored, and \<open>exportToFile\<close>, called with the new operation as
  argument, does not clear that array.
\<close>

theorem record_twice_stores_three:
  "stored_operations (storage (snd (writeFailedOperation op2 gen2
        (snd (writeFailedOperation op1 gen1 new_sink)))))
     = [\<lparr>fo_id = ''failed_1_a'', fo_timestamp = ''2025-09-28T10:00:00.000Z'',
         fo_kioskId = ''kiosk_1_k'', fo_operation = op1, fo_error = ''Network unavailable''\<rparr>,
        \<lparr>fo_id = ''failed_1_a'', fo_timestamp = ''2025-09-28T10:00:00.000Z'',
         fo_kioskId = ''kiosk_1_k'', fo_operation = op1, fo_error = ''Network unavailable''\<rparr>,
        \<lparr>fo_id = ''failed_2_b'', fo_timestamp = ''2025-09-28T11:00:00.000Z'',
         fo_kioskId = ''kiosk_1_k'', fo_operation = op2, fo_error = ''Network unavailable''\<rparr>] \<and>
   getPendingCount (snd (writeFailedOperation op2 gen2
        (snd (writeFailedOperation op1 gen1 new_sink)))) = 3 \<and>
   \<not> distinct (stored_operations (storage (snd (writeFailedOperation op2 gen2
        (snd (writeFailedOperation op1 gen1 new_sink))))))"
  by (simp add: writeFailedOperation_def exportToFile_def saveToLocalStorage_def getKioskId_def
        new_failedOp_def new_sink_def gen1_def gen2_def stored_operations_def read_backlog_def
        slice_last_def getPendingCount_def Let_def)

section \<open>The trip lifecycle\<close>

lemma writeFailedOperation_cards:
  "card_balance (storage (snd (writeFailedOperation opn g s))) = card_balance (storage s) \<and>
   card_trip (storage (snd (writeFailedOperation opn g s))) = card_trip (storage s)"
  by (auto simp: writeFailedOperation_def exportToFile_fields saveToLocalStorage_fields Let_def
        split: prod.splits dest!: getKioskId_cases)

lemma createTrip_cards:
  "card_balance (storage (createTrip be g u st s)) = card_balance (storage s) \<and>
   card_trip (storage (createTrip be g u st s)) = card_trip (storage s)"
  by (simp add: createTrip_def writeFailedOperation_cards split: response.splits)

lemma completeTrip_cards:
  "card_balance (storage (completeTrip be g t d f s)) = card_balance (storage s) \<and>
   card_trip (storage (completeTrip be g t d f s)) = card_trip (storage s)"
  by (simp add: completeTrip_def writeFailedOperation_cards split: response.splits)

lemma complete_in_backend_cards:
  "card_balance (storage (complete_in_backend be g u e f s)) = card_balance (storage s) \<and>
   card_trip (storage (complete_in_backend be g u e f s)) = card_trip (storage s)"
  by (simp add: complete_in_backend_def completeTrip_cards split: option.splits)

lemma scanCard_Some:
  "VITE_TEST_CARD_UUID ev = Some u \<Longrightarrow> u \<noteq> [] \<Longrightarrow>
   \<exists>ls'. scanCard ev ls = (Some \<lparr>uuid = u, balance = cs_balance (readCard u ls)\<rparr>, ls') \<and>
         card_trip ls' = card_trip ls \<and>
         card_balance ls' = (card_balance ls)(u \<mapsto> cs_balance (readCard u ls))"
  by (auto simp: scanCard_def readCard_def split: option.splits)

lemma scanCard_trip: "card_trip (snd (scanCard ev ls)) = card_trip ls"
  by (auto simp: scanCard_def split: option.splits)

lemma scanCard_uuid:
  "scanCard ev ls = (Some cd, ls') \<Longrightarrow> VITE_TEST_CARD_UUID ev = Some (uuid cd) \<and> uuid cd \<noteq> []"
  by (auto simp: scanCard_def split: option.splits if_splits)

text \<open>
  Claim C4. An entry attempt with a scanned card, a configured entry station and a
  balance of at least the minimum fare is accepted; afterwards the card's active trip
  is the entry station with the entry time stamp, and its balance is the balance before.
\<close>

theorem entry_sets_trip_keeps_balance:
  assumes "VITE_TEST_CARD_UUID ev = Some u" and "u \<noteq> []"
    and "or_station this_entryStationId (VITE_ENTRY_STATION_ID ev) = Some e" and "e \<noteq> 0"
    and "fs_minimumFare (k_fares k) = Some m"
    and "m \<le> cs_balance (readCard u (storage (k_sink k)))"
  shows "success (fst (handleDefaultScan ev be g ts this_entryStationId k)) \<and>
         readCard u (storage (k_sink (snd (handleDefaultScan ev be g ts this_entryStationId k))))
           = \<lparr>cs_balance = cs_balance (readCard u (storage (k_sink k))),
              cs_activeTrip = Some \<lparr>trip_station_id = e, trip_timestamp = ts\<rparr>\<rparr>"
proof -
  obtain ls' where sc:
    "scanCard ev (storage (k_sink k))
       = (Some \<lparr>uuid = u, balance = cs_balance (readCard u (storage (k_sink k)))\<rparr>, ls')"
    "card_balance ls' = (card_balance (storage (k_sink k)))(u \<mapsto> cs_balance (readCard u (storage (k_sink k))))"
    using scanCard_Some [OF assms(1,2)] by blast
  show ?thesis
    using assms sc
    by (simp add: handleDefaultScan_def Let_def lt_nullable_def fs_getMinimumFare_def
          scan_success_def createTrip_cards readCard_def writeCardTrip_def)
qed


lemma offline_fares_minimum: "fs_minimumFare offline_fares = Some (9/4)"
  by (simp add: offline_fares_def initializeFromConfig_def getMinimumFare_def ensureConfig_def
        offline_config_def initialize_catch_def loadStaticConfig_def new_ConfigManager_def
        new_fareStore_def transitConfig_def or_num_def split: prod.splits)

lemma offline_fares_1_2: "fareCache offline_fares (1, 2) = Some (13/4)"
  by (simp add: offline_fares_def initializeFromConfig_def getMinimumFare_def ensureConfig_def
        offline_config_def initialize_catch_def loadStaticConfig_def new_ConfigManager_def
        new_fareStore_def transitConfig_def or_num_def cacheKey_def split: prod.splits)

text \<open>The theorem at the idle card entering at station 1.\<close>

theorem entry_sets_trip_keeps_balance_witness:
  "success (fst (handleDefaultScan test_env unreachable gen1 ''2025-09-28T10:00:00.000Z'' None
                   idle_kiosk)) \<and>
   readCard ''card-1''
     (storage (k_sink (snd (handleDefaultScan test_env unreachable gen1
                              ''2025-09-28T10:00:00.000Z'' None idle_kiosk))))
     = \<lparr>cs_balance = 25,
        cs_activeTrip = Some \<lparr>trip_station_id = 1,
                               trip_timestamp = ''2025-09-28T10:00:00.000Z''\<rparr>\<rparr>"
  using entry_sets_trip_keeps_balance [where ev = test_env and u = "''card-1''"
      and this_entryStationId = None and e = 1 and k = idle_kiosk and m = "9/4"
      and be = unreachable and g = gen1 and ts = "''2025-09-28T10:00:00.000Z''"]
  by (simp add: test_env_def or_station_def idle_kiosk_def offline_fares_minimum readCard_def)

lemma js_sub_25_325: "js_sub 25 (13/4) = 87/4"
  by code_simp

lemma complete_in_backend_unreachable: "complete_in_backend unreachable g u e f s = s"
  by (simp add: complete_in_backend_def getCardByUuid_def unreachable_def)

text \<open>
  Claim C1 at the riding card leaving at station 2 with the backend unreachable: the
  exit is accepted, the balance is debited by the fare 3.25 and the trip is cleared,
  but no failed operation is recorded, in memory, in storage or as a download. The card
  lookup that precedes the completion call resolves to \<open>null\<close> and ends the chain.
\<close>

theorem exit_offline_records_nothing:
  "success (fst (handleScanToExit test_env unreachable gen1 None riding_kiosk)) \<and>
   readCard ''card-1'' (storage (k_sink (snd (handleScanToExit test_env unreachable gen1 None
                                                riding_kiosk))))
     = \<lparr>cs_balance = 87/4, cs_activeTrip = None\<rparr> \<and>
   failedOps (k_sink (snd (handleScanToExit test_env unreachable gen1 None riding_kiosk))) = [] \<and>
   stored_operations (storage (k_sink (snd (handleScanToExit test_env unreachable gen1 None
                                              riding_kiosk)))) = [] \<and>
   downloads (k_sink (snd (handleScanToExit test_env unreachable gen1 None riding_kiosk))) = []"
  by (simp add: handleScanToExit_def scanCard_def test_env_def riding_kiosk_def readCardTrip_def
        or_station_def fetchFareBetweenStations_def cacheKey_def offline_fares_1_2 js_sub_25_325
        complete_in_backend_unreachable writeCardBalance_def clearCardTrip_def readCard_def
        scan_success_def stored_operations_def read_backlog_def)

text \<open>With the backend unreachable no exit attempt changes the sink's operations.\<close>

lemma exit_unreachable_sink:
  "failedOps (k_sink (snd (handleScanToExit ev unreachable g x k))) = failedOps (k_sink k) \<and>
   stored_operations (storage (k_sink (snd (handleScanToExit ev unreachable g x k))))
     = stored_operations (storage (k_sink k)) \<and>
   downloads (k_sink (snd (handleScanToExit ev unreachable g x k))) = downloads (k_sink k)"
  by (auto simp: handleScanToExit_def scanCard_def readCardTrip_def Let_def
        complete_in_backend_unreachable writeCardBalance_def clearCardTrip_def
        stored_operations_cards
        split: option.splits prod.splits if_splits)

text \<open>
  The completion is recorded when the two lookups resolve and only the completion call
  is rejected.
\<close>

lemma exit_records_when_lookups_resolve:
  assumes "VITE_TEST_CARD_UUID ev = Some u" and "u \<noteq> []"
    and "card_trip (storage (k_sink k)) u = Some t"
    and "or_station x (VITE_EXIT_STATION_ID ev) = Some e" and "e \<noteq> 0"
    and "fetchFareBetweenStations be (trip_station_id t) e (k_fares k, k_config k)
           = (Some f, fs', cm')"
    and "\<not> cs_balance (readCard u (storage (k_sink k))) < f"
    and "api_getCardByUuid be u = Resolved (Some c)"
    and "api_getActiveTrip be (card_id c) = Resolved (Some a)"
    and "api_completeTrip be (trip_id a) e f = Rejected"
  shows "\<exists>fo. failedOps (k_sink (snd (handleScanToExit ev be g x k)))
                 = failedOps (k_sink k) @ [fo] \<and>
              fo_operation fo = \<lparr>op_type = COMPLETE_TRIP,
                                  op_data = CompleteTripData (trip_id a) e f,
                                  op_timestamp = gen_op_now g\<rparr>"
proof -
  obtain ls' where sc:
    "scanCard ev (storage (k_sink k))
       = (Some \<lparr>uuid = u, balance = cs_balance (readCard u (storage (k_sink k)))\<rparr>, ls')"
    "card_trip ls' = card_trip (storage (k_sink k))"
    using scanCard_Some [OF assms(1,2)] by blast
  show ?thesis
    using assms sc
    by (simp add: handleScanToExit_def Let_def readCardTrip_def complete_in_backend_def
          getCardByUuid_def getActiveTrip_def completeTrip_def writeFailedOperation_failedOps
          new_failedOp_def)
qed

text \<open>
  Claim C8, as stated, at the card riding from station 1: an entry attempt at station 2
  is accepted and the stored trip is overwritten with the new station and time stamp.
  The entry flow never reads the stored trip.
\<close>

theorem entry_overwrites_active_trip_counterexample:
  "trip_state_of ''card-1'' (storage (k_sink riding_kiosk)) = ACTIVE \<and>
   cs_activeTrip (readCard ''card-1'' (storage (k_sink riding_kiosk)))
     = Some \<lparr>trip_station_id = 1, trip_timestamp = ''2025-09-28T09:30:00.000Z''\<rparr> \<and>
   success (fst (handleDefaultScan test_env unreachable gen1 ''2025-09-28T10:00:00.000Z''
                   (Some 2) riding_kiosk)) \<and>
   cs_activeTrip (readCard ''card-1''
       (storage (k_sink (snd (handleDefaultScan test_env unreachable gen1
                                ''2025-09-28T10:00:00.000Z'' (Some 2) riding_kiosk)))))
     = Some \<lparr>trip_station_id = 2, trip_timestamp = ''2025-09-28T10:00:00.000Z''\<rparr>"
  by (simp add: handleDefaultScan_def Let_def scanCard_def test_env_def riding_kiosk_def or_station_def
        fs_getMinimumFare_def offline_fares_minimum lt_nullable_def writeCardTrip_def
        createTrip_cards readCard_def scan_success_def trip_state_of_def)

lemma scan_results [simp]:
  "\<not> success (scan_error msg)" "\<not> success (scan_insufficient msg cd)" "success (scan_success p)"
  by (simp_all add: scan_error_def scan_insufficient_def scan_success_def)

lemma entry_transition:
  "(\<not> success (fst (handleDefaultScan ev be g ts x k)) \<and>
      card_trip (storage (k_sink (snd (handleDefaultScan ev be g ts x k))))
        = card_trip (storage (k_sink k))) \<or>
   (success (fst (handleDefaultScan ev be g ts x k)) \<and>
      (\<exists>u e. VITE_TEST_CARD_UUID ev = Some u \<and>
             or_station x (VITE_ENTRY_STATION_ID ev) = Some e \<and> e \<noteq> 0 \<and>
             card_trip (storage (k_sink (snd (handleDefaultScan ev be g ts x k))))
               = (card_trip (storage (k_sink k)))
                   (u \<mapsto> \<lparr>trip_station_id = e, trip_timestamp = ts\<rparr>)))"
proof (cases "scanCard ev (storage (k_sink k))")
  case (Pair cdo ls1)
  have trip1: "card_trip ls1 = card_trip (storage (k_sink k))"
    using scanCard_trip [of ev "storage (k_sink k)"] Pair by simp
  show ?thesis
  proof (cases cdo)
    case None
    with Pair show ?thesis by (simp add: handleDefaultScan_def Let_def)
  next
    case (Some cd)
    with Pair have u: "VITE_TEST_CARD_UUID ev = Some (uuid cd)"
      using scanCard_uuid by blast
    show ?thesis
    proof (cases "or_station x (VITE_ENTRY_STATION_ID ev)")
      case None
      with Pair Some trip1 show ?thesis by (simp add: handleDefaultScan_def Let_def)
    next
      case e: (Some e)
      show ?thesis
      proof (cases "e = 0 \<or> lt_nullable (balance cd) (fs_getMinimumFare (k_fares k))")
        case True
        with Pair Some trip1 e show ?thesis by (auto simp: handleDefaultScan_def Let_def)
      next
        case False
        with Pair Some trip1 e u show ?thesis
          by (simp add: handleDefaultScan_def Let_def createTrip_cards writeCardTrip_def)
      qed
    qed
  qed
qed

lemma exit_transition:
  "(\<not> success (fst (handleScanToExit ev be g y k)) \<and>
      card_trip (storage (k_sink (snd (handleScanToExit ev be g y k))))
        = card_trip (storage (k_sink k))) \<or>
   (success (fst (handleScanToExit ev be g y k)) \<and>
      (\<exists>u. VITE_TEST_CARD_UUID ev = Some u \<and>
           card_trip (storage (k_sink (snd (handleScanToExit ev be g y k))))
             = (card_trip (storage (k_sink k)))(u := None)))"
proof (cases "scanCard ev (storage (k_sink k))")
  case (Pair cdo ls1)
  have trip1: "card_trip ls1 = card_trip (storage (k_sink k))"
    using scanCard_trip [of ev "storage (k_sink k)"] Pair by simp
  show ?thesis
  proof (cases cdo)
    case None
    with Pair show ?thesis by (simp add: handleScanToExit_def Let_def)
  next
    case (Some cd)
    with Pair have u: "VITE_TEST_CARD_UUID ev = Some (uuid cd)"
      using scanCard_uuid by blast
    show ?thesis
    proof (cases "card_trip ls1 (uuid cd)")
      case None
      then have "(card_trip ls1)(uuid cd := None) = card_trip ls1"
        by (simp add: fun_upd_idem)
      with None Pair Some trip1 u show ?thesis
        by (simp add: handleScanToExit_def Let_def readCardTrip_def)
    next
      case t: (Some t)
      show ?thesis
      proof (cases "or_station y (VITE_EXIT_STATION_ID ev)")
        case None
        with Pair Some trip1 t show ?thesis
          by (simp add: handleScanToExit_def Let_def readCardTrip_def)
      next
        case e: (Some e)
        obtain fo fs' cm' where f:
          "fetchFareBetweenStations be (trip_station_id t) e (k_fares k, k_config k)
             = (fo, fs', cm')"
          by (cases "fetchFareBetweenStations be (trip_station_id t) e (k_fares k, k_config k)")
        show ?thesis
        proof (cases "e = 0")
          case True
          with Pair Some trip1 t e show ?thesis
            by (simp add: handleScanToExit_def Let_def readCardTrip_def)
        next
          case False
          show ?thesis
          proof (cases fo)
            case None
            with Pair Some trip1 t e f False show ?thesis
              by (simp add: handleScanToExit_def Let_def readCardTrip_def)
          next
            case fare: (Some fare')
            show ?thesis
            proof (cases "balance cd < fare'")
              case True
              with Pair Some trip1 t e f False fare show ?thesis
                by (simp add: handleScanToExit_def Let_def readCardTrip_def)
            next
              case nlt: False
              with Pair Some trip1 t e f False fare u show ?thesis
                by (simp add: handleScanToExit_def Let_def readCardTrip_def complete_in_backend_cards
                      writeCardBalance_def clearCardTrip_def)
            qed
          qed
        qed
      qed
    qed
  qed
qed


text \<open>
  Claim C8, amended. A rejected entry or exit attempt leaves every card's trip as it
  was. An accepted entry stores the entry station and time stamp as the scanned card's
  trip whatever was stored before, so the card is ACTIVE afterwards, from IDLE and from
  ACTIVE alike. An accepted exit removes the scanned card's trip, so the card is IDLE
  afterwards. No other card's trip changes.
\<close>

theorem trip_transitions:
  "(\<not> success (fst (handleDefaultScan ev be g ts x k)) \<longrightarrow>
      card_trip (storage (k_sink (snd (handleDefaultScan ev be g ts x k))))
        = card_trip (storage (k_sink k))) \<and>
   (success (fst (handleDefaultScan ev be g ts x k)) \<longrightarrow>
      (\<exists>u e. VITE_TEST_CARD_UUID ev = Some u \<and>
             or_station x (VITE_ENTRY_STATION_ID ev) = Some e \<and> e \<noteq> 0 \<and>
             card_trip (storage (k_sink (snd (handleDefaultScan ev be g ts x k))))
               = (card_trip (storage (k_sink k)))
                   (u \<mapsto> \<lparr>trip_station_id = e, trip_timestamp = ts\<rparr>) \<and>
             trip_state_of u (storage (k_sink (snd (handleDefaultScan ev be g ts x k))))
               = ACTIVE)) \<and>
   (\<not> success (fst (handleScanToExit ev be g y k)) \<longrightarrow>
      card_trip (storage (k_sink (snd (handleScanToExit ev be g y k))))
        = card_trip (storage (k_sink k))) \<and>
   (success (fst (handleScanToExit ev be g y k)) \<longrightarrow>
      (\<exists>u. VITE_TEST_CARD_UUID ev = Some u \<and>
           card_trip (storage (k_sink (snd (handleScanToExit ev be g y k))))
             = (card_trip (storage (k_sink k)))(u := None) \<and>
           trip_state_of u (storage (k_sink (snd (handleScanToExit ev be g y k)))) = IDLE))"
proof -
  have active: "trip_state_of u ls = ACTIVE" if "card_trip ls = m(u \<mapsto> t)" for u ls m t
    using that by (simp add: trip_state_of_def)
  have idle: "trip_state_of u ls = IDLE" if "card_trip ls = m(u := None)" for u ls m
    using that by (simp add: trip_state_of_def)
  from entry_transition [of ev be g ts x k] exit_transition [of ev be g y k] active idle
  show ?thesis
    by (intro conjI impI) (elim disjE conjE exE; blast)+
qed

lemma riding_entry_accepted:
  "success (fst (handleDefaultScan test_env unreachable gen1 ''2025-09-28T10:00:00.000Z''
                   (Some 2) riding_kiosk))"
  by (simp add: handleDefaultScan_def scanCard_def test_env_def riding_kiosk_def or_station_def
        fs_getMinimumFare_def offline_fares_minimum lt_nullable_def Let_def)

lemma riding_exit_accepted:
  "success (fst (handleScanToExit test_env unreachable gen1 None riding_kiosk))"
  by (simp add: handleScanToExit_def scanCard_def test_env_def riding_kiosk_def readCardTrip_def
        or_station_def fetchFareBetweenStations_def cacheKey_def offline_fares_1_2 Let_def)

text \<open>The theorem at the riding card: an accepted entry at station 2, and an accepted exit.\<close>

theorem trip_transitions_witness:
  "card_trip (storage (k_sink (snd (handleDefaultScan test_env unreachable gen1
                                      ''2025-09-28T10:00:00.000Z'' (Some 2) riding_kiosk))))
     = (card_trip (storage (k_sink riding_kiosk)))
         (''card-1'' \<mapsto> \<lparr>trip_station_id = 2, trip_timestamp = ''2025-09-28T10:00:00.000Z''\<rparr>) \<and>
   trip_state_of ''card-1''
     (storage (k_sink (snd (handleDefaultScan test_env unreachable gen1
                              ''2025-09-28T10:00:00.000Z'' (Some 2) riding_kiosk)))) = ACTIVE \<and>
   card_trip (storage (k_sink (snd (handleScanToExit test_env unreachable gen1 None riding_kiosk))))
     = (card_trip (storage (k_sink riding_kiosk)))(''card-1'' := None) \<and>
   trip_state_of ''card-1''
     (storage (k_sink (snd (handleScanToExit test_env unreachable gen1 None riding_kiosk))))
     = IDLE"
  using trip_transitions [where ev = test_env and be = unreachable and g = gen1
      and ts = "''2025-09-28T10:00:00.000Z''" and x = "Some 2" and y = None and k = riding_kiosk]
    riding_entry_accepted riding_exit_accepted
  by (auto simp: test_env_def or_station_def)

section \<open>Rounding to doubles\<close>

text \<open>\<open>pow2\<close> is the power of two with an integer exponent.\<close>

lemma pow2_powi: "pow2 e = 2 powi e"
  by (simp add: pow2_def power_int_def power_one_over inverse_eq_divide)

lemma pow2_pos: "0 < pow2 e"
  by (simp add: pow2_powi)

lemma pow2_add: "pow2 (a + b) = pow2 a * pow2 b"
  by (simp add: pow2_powi power_int_add)

lemma pow2_mono: "a \<le> b \<Longrightarrow> pow2 a \<le> pow2 b"
  by (simp add: pow2_powi power_int_increasing)

lemma pow2_strict_mono: "a < b \<Longrightarrow> pow2 a < pow2 b"
  by (simp add: pow2_powi power_int_strict_increasing)

lemma pow2_less_imp_less: "pow2 a < pow2 b \<Longrightarrow> a < b"
  using pow2_mono [of b a] by (cases "a < b") auto

lemma pow2_le_imp_le: "pow2 a \<le> pow2 b \<Longrightarrow> a \<le> b"
  using pow2_strict_mono [of b a] by (cases "a \<le> b") auto

lemma pow2_numeral: "pow2 (- 2) = 1/4" "pow2 0 = 1" "pow2 1 = 2"
  by (simp_all add: pow2_def)

text \<open>The binade of \<open>x\<close> is below \<open>x\<close>, or is the least one.\<close>

lemma bup_le: "1 \<le> x \<Longrightarrow> pow2 (bup x e) \<le> x * pow2 e"
proof (induction x e rule: bup.induct)
  case (1 x e)
  show ?case
  proof (cases "x < 2 \<or> 1024 \<le> e")
    case True
    then have "bup x e = e" by (simp add: bup.simps [of x e])
    moreover have "pow2 e \<le> x * pow2 e"
      using "1.prems" pow2_pos [of e] by (simp add: mult_le_cancel_right1)
    ultimately show ?thesis by simp
  next
    case False
    then have step: "bup x e = bup (x / 2) (e + 1)" by (simp add: bup.simps [of x e])
    from False have "1 \<le> x / 2" by simp
    with "1.IH" False have "pow2 (bup (x / 2) (e + 1)) \<le> x / 2 * pow2 (e + 1)" by simp
    also have "\<dots> = x * pow2 e" by (simp add: pow2_add pow2_numeral)
    finally show ?thesis using step by simp
  qed
qed

lemma bdown_le:
  "- 1022 \<le> e \<Longrightarrow> 0 \<le> x \<Longrightarrow> pow2 (bdown x e) \<le> max (x * pow2 e) (pow2 (- 1022))"
proof (induction x e rule: bdown.induct)
  case (1 x e)
  show ?case
  proof (cases "1 \<le> x")
    case True
    then have "bdown x e = e" by (simp add: bdown.simps [of x e])
    moreover have "pow2 e \<le> x * pow2 e"
      using True pow2_pos [of e] by (simp add: mult_le_cancel_right1)
    ultimately show ?thesis by simp
  next
    case x: False
    show ?thesis
    proof (cases "e \<le> - 1022")
      case True
      with "1.prems" have "e = - 1022" by simp
      then show ?thesis by (simp add: bdown.simps [of x "- 1022"])
    next
      case False
      with x have step: "bdown x e = bdown (2 * x) (e - 1)" by (simp add: bdown.simps [of x e])
      have "pow2 e = pow2 (e - 1) * 2"
        using pow2_add [of "e - 1" 1] by (simp add: pow2_numeral)
      then have eq: "2 * x * pow2 (e - 1) = x * pow2 e" by simp
      from "1.IH" x False "1.prems"
      have "pow2 (bdown (2 * x) (e - 1)) \<le> max (2 * x * pow2 (e - 1)) (pow2 (- 1022))"
        by simp
      then have "pow2 (bdown (2 * x) (e - 1)) \<le> max (x * pow2 e) (pow2 (- 1022))"
        by (simp only: eq)
      then show ?thesis by (simp only: step)
    qed
  qed
qed

lemma binade_le: "0 \<le> x \<Longrightarrow> pow2 (binade x) \<le> max x (pow2 (- 1022))"
  using bup_le [of x 0] bdown_le [of 0 x]
  by (auto simp: binade_def pow2_numeral max_def)

lemma round_half_even_err: "\<bar>of_int (round_half_even q) - q\<bar> \<le> 1/2"
proof -
  define n where "n = \<lfloor>q\<rfloor>"
  define d where "d = q - of_int n"
  have d: "0 \<le> d" "d < 1"
    unfolding d_def n_def by linarith+
  have q: "q = of_int n + d"
    by (simp add: d_def)
  have r: "round_half_even q
             = (if d < 1/2 then n else if 1/2 < d then n + 1 else if even n then n else n + 1)"
    by (simp add: round_half_even_def Let_def d_def n_def)
  have "\<bar>of_int (round_half_even q) - (of_int n + d)\<bar> \<le> 1/2"
    unfolding r using d by (simp add: abs_if)
  with q show ?thesis by simp
qed

lemma round_half_even_of_int: "round_half_even (of_int n) = n"
  by (simp add: round_half_even_def)

lemma ulp_pos: "0 < ulp x"
  by (simp add: ulp_def pow2_pos)

lemma ulp_le: "ulp x \<le> max \<bar>x\<bar> (pow2 (- 1022)) * pow2 (- 52)"
proof -
  have "ulp x = pow2 (binade \<bar>x\<bar>) * pow2 (- 52)"
    using pow2_add [of "binade \<bar>x\<bar>" "- 52"] by (simp add: ulp_def)
  also have "\<dots> \<le> max \<bar>x\<bar> (pow2 (- 1022)) * pow2 (- 52)"
    using binade_le [of "\<bar>x\<bar>"] pow2_pos [of "- 52"] by (simp add: mult_right_mono)
  finally show ?thesis .
qed

text \<open>Rounding moves a value by at most half the spacing of the doubles around it.\<close>

lemma round_double_err: "\<bar>round_double x - x\<bar> \<le> ulp x / 2"
proof -
  have "round_double x - x = (of_int (round_half_even (x / ulp x)) - x / ulp x) * ulp x"
    using ulp_pos [of x] by (simp add: round_double_def algebra_simps)
  then have "\<bar>round_double x - x\<bar> = \<bar>of_int (round_half_even (x / ulp x)) - x / ulp x\<bar> * ulp x"
    using ulp_pos [of x] by (simp add: abs_mult)
  also have "\<dots> \<le> 1/2 * ulp x"
    using round_half_even_err [of "x / ulp x"] ulp_pos [of x] by (intro mult_right_mono) auto
  finally show ?thesis by simp
qed

text \<open>A value that is a double, a significand below \<open>2^53\<close> times a power of two, is not moved.\<close>

lemma round_double_exact:
  assumes x: "x = of_int m * pow2 e" and m: "\<bar>m\<bar> < 2 ^ 53" and e: "- 1074 \<le> e"
  shows "round_double x = x"
proof -
  let ?b = "binade \<bar>x\<bar>"
  have b: "?b \<le> e + 52"
  proof (cases "\<bar>x\<bar> \<le> pow2 (- 1022)")
    case True
    with binade_le [of "\<bar>x\<bar>"] have "pow2 ?b \<le> pow2 (- 1022)" by simp
    then have "?b \<le> - 1022" by (rule pow2_le_imp_le)
    with e show ?thesis by simp
  next
    case False
    with binade_le [of "\<bar>x\<bar>"] have "pow2 ?b \<le> \<bar>x\<bar>" by simp
    also have "\<bar>x\<bar> = of_int \<bar>m\<bar> * pow2 e"
      using pow2_pos [of e] by (simp add: x abs_mult)
    also have "\<dots> < 2 ^ 53 * pow2 e"
    proof -
      have "(of_int \<bar>m\<bar> :: rat) < of_int (2 ^ 53)"
        using m by (simp only: of_int_less_iff)
      then show ?thesis
        using pow2_pos [of e] by (simp add: mult_strict_right_mono)
    qed
    also have "\<dots> = pow2 (53 + e)"
      using pow2_add [of 53 e] by (simp add: pow2_def)
    finally have "?b < 53 + e" by (rule pow2_less_imp_less)
    then show ?thesis by simp
  qed
  define j where "j = nat (e + 52 - ?b)"
  define u where "u = ulp x"
  have u: "0 < u" "u = pow2 (?b - 52)"
    by (simp_all add: u_def ulp_def pow2_pos)
  have "pow2 e = pow2 (e + 52 - ?b) * pow2 (?b - 52)"
    using pow2_add [of "e + 52 - ?b" "?b - 52"] by simp
  also have "pow2 (e + 52 - ?b) = 2 ^ j"
    using b by (simp add: pow2_def j_def)
  finally have pe: "pow2 e = 2 ^ j * u"
    by (simp only: u(2))
  have "x = of_int m * pow2 e" by (rule x)
  also have "\<dots> = of_int m * (2 ^ j * u)" by (simp only: pe)
  finally have xu: "x = of_int (m * 2 ^ j) * u" by simp
  then have "x / u = of_int (m * 2 ^ j) * u / u"
    by (rule arg_cong [where f = "\<lambda>t. t / u"])
  also have "\<dots> = of_int (m * 2 ^ j)"
    using u(1) by simp
  finally have "round_half_even (x / u) = m * 2 ^ j"
    by (simp only: round_half_even_of_int)
  then have "round_double x = of_int (m * 2 ^ j) * u"
    by (simp only: round_double_def u_def)
  with xu show ?thesis by (simp only:)
qed

lemma round_double_nonneg: "0 \<le> x \<Longrightarrow> 0 \<le> round_double x"
proof -
  assume x: "0 \<le> x"
  then have "0 \<le> x / ulp x"
    using ulp_pos [of x] by simp
  then have "0 \<le> \<lfloor>x / ulp x\<rfloor>" by simp
  then have "0 \<le> round_half_even (x / ulp x)"
    by (simp add: round_half_even_def Let_def)
  then show ?thesis
    using ulp_pos [of x] by (simp add: round_double_def)
qed

lemma round_double_err_small:
  assumes "\<bar>x\<bar> \<le> 2 ^ 27"
  shows "\<bar>round_double x - x\<bar> \<le> 1 / 2 ^ 26"
proof -
  have "pow2 (- 1022) \<le> pow2 27" by (rule pow2_mono) simp
  also have "pow2 27 = 2 ^ 27" by (simp add: pow2_def)
  finally have "max \<bar>x\<bar> (pow2 (- 1022)) \<le> 2 ^ 27"
    using assms by simp
  then have "max \<bar>x\<bar> (pow2 (- 1022)) * pow2 (- 52) \<le> 2 ^ 27 * pow2 (- 52)"
    using pow2_pos [of "- 52"] by (simp only: mult_le_cancel_right_pos)
  also have "\<dots> = 1 / 2 ^ 25" by (simp add: pow2_def)
  finally have "ulp x \<le> 1 / 2 ^ 25"
    using ulp_le [of x] by simp
  with round_double_err [of x] show ?thesis by simp
qed

lemma cents_err:
  assumes "n \<le> 10 ^ 10"
  shows "\<bar>round_double (of_nat n / 100) - of_nat n / 100\<bar> \<le> 1 / 2 ^ 26"
proof -
  have "(of_nat n :: rat) \<le> of_nat (10 ^ 10)"
    using assms by (simp only: of_nat_le_iff)
  then have "\<bar>of_nat n / 100 :: rat\<bar> \<le> 2 ^ 27" by simp
  then show ?thesis by (rule round_double_err_small)
qed

lemma toFixed2_near:
  assumes "0 \<le> x" and "\<bar>x * 100 - of_nat n\<bar> < 1/2"
  shows "toFixed2 x = fixed2_of_cents n"
proof -
  from assms(2) have "x * 100 - of_nat n < 1/2 \<and> - (x * 100 - of_nat n) < 1/2"
    by (simp only: abs_less_iff)
  then have "of_int (int n) \<le> x * 100 + 1/2" "x * 100 + 1/2 < of_int (int n) + 1"
    by simp_all
  then have "\<lfloor>x * 100 + 1/2\<rfloor> = int n"
    by (rule floor_unique)
  with assms(1) show ?thesis by (simp add: toFixed2_def)
qed

text \<open>
  The model on values JavaScript is known for: the double \<open>0.1\<close>;
  \<open>0.3 - 0.1\<close>, which is \<open>0.19999999999999998\<close> and not \<open>0.2\<close>;
  \<open>(1.005).toFixed(2)\<close>, which is \<open>"1.00"\<close>; and \<open>(25 - 3.25).toFixed(2)\<close>.
\<close>

lemma known_doubles:
  "round_double (1/10) = 3602879701896397 / 36028797018963968"
  "js_sub (round_double (3/10)) (round_double (1/10)) = 7205759403792793 / 36028797018963968"
  "js_sub (round_double (3/10)) (round_double (1/10)) \<noteq> round_double (2/10)"
  "toFixed2 (round_double (201/200)) = ''1.00''"
  "toFixed2 (js_sub 25 (13/4)) = ''21.75''"
  by code_simp+

text \<open>
  Amounts within \<open>2^-26\<close> of whole cents, up to \<open>10^10\<close> cents, as the doubles nearest
  to such amounts are: their \<open>toFixed(2)\<close> renderings, and the rendering of their
  computed difference, are those of the decimal amounts.
\<close>

lemma near_cents:
  assumes eB: "\<bar>B - of_nat b / 100\<bar> \<le> 1 / 2 ^ 26" and eF: "\<bar>F - of_nat f / 100\<bar> \<le> 1 / 2 ^ 26"
    and nnB: "0 \<le> B" and lt: "B < F" and f: "f \<le> 10 ^ 10"
  shows "b \<le> f"
    and "toFixed2 F = fixed2_of_cents f"
    and "toFixed2 B = fixed2_of_cents b"
    and "toFixed2 (js_sub F B) = fixed2_of_cents (f - b)"
proof -
  define D where "D = round_double (F - B)"
  define fr where "fr = (of_nat f :: rat)"
  define br where "br = (of_nat b :: rat)"
  define E where "E = (1 / 2 ^ 26 :: rat)"
  have E: "E = 1 / 67108864" by (simp add: E_def)
  have eF': "\<bar>F - fr / 100\<bar> \<le> E" and eB': "\<bar>B - br / 100\<bar> \<le> E"
    using eF eB by (simp_all only: fr_def br_def E_def)
  have "br < fr + 1"
    using eF' eB' lt E by linarith
  then have "(of_nat b :: rat) < of_nat (Suc f)"
    by (simp add: br_def fr_def)
  then have "b < Suc f" by (simp only: of_nat_less_iff)
  then show bf: "b \<le> f" by simp
  have "(of_nat f :: rat) \<le> of_nat (10 ^ 10)"
    using f by (simp only: of_nat_le_iff)
  then have top: "fr \<le> 10000000000" by (simp add: fr_def)
  have nnF: "0 \<le> F" using nnB lt by simp
  have dF: "\<bar>F * 100 - fr\<bar> < 1/2" using eF' E by linarith
  have dB: "\<bar>B * 100 - br\<bar> < 1/2" using eB' E by linarith
  have "\<bar>F - B\<bar> \<le> 134217728"
    using eF' top nnB lt E by linarith
  then have "\<bar>F - B\<bar> \<le> 2 ^ 27" by simp
  then have eD: "\<bar>D - (F - B)\<bar> \<le> E"
    unfolding D_def E_def by (rule round_double_err_small)
  have nnD: "0 \<le> D"
    unfolding D_def using lt by (simp add: round_double_nonneg)
  have diff: "of_nat (f - b) = fr - br"
    using bf by (simp add: of_nat_diff fr_def br_def)
  have dD: "\<bar>D * 100 - of_nat (f - b)\<bar> < 1/2"
    unfolding diff using eF' eB' eD E by linarith
  show "toFixed2 F = fixed2_of_cents f"
    using nnF dF unfolding fr_def by (rule toFixed2_near)
  show "toFixed2 B = fixed2_of_cents b"
    using nnB dB unfolding br_def by (rule toFixed2_near)
  have "toFixed2 D = fixed2_of_cents (f - b)"
    using nnD dD by (rule toFixed2_near)
  then show "toFixed2 (js_sub F B) = fixed2_of_cents (f - b)"
    by (simp only: D_def js_sub_def)
qed

section \<open>The exit flow\<close>

lemma exit_accepted_state:
  assumes "VITE_TEST_CARD_UUID ev = Some u" and "u \<noteq> []"
    and "card_trip (storage (k_sink k)) u = Some t"
    and "or_station y (VITE_EXIT_STATION_ID ev) = Some e" and "e \<noteq> 0"
    and "fetchFareBetweenStations be (trip_station_id t) e (k_fares k, k_config k)
           = (Some fare', fs', cm')"
    and "\<not> cs_balance (readCard u (storage (k_sink k))) < fare'"
  shows "success (fst (handleScanToExit ev be g y k)) \<and>
         readCard u (storage (k_sink (snd (handleScanToExit ev be g y k))))
           = \<lparr>cs_balance = js_sub (cs_balance (readCard u (storage (k_sink k)))) fare',
              cs_activeTrip = None\<rparr>"
proof -
  obtain ls' where sc:
    "scanCard ev (storage (k_sink k))
       = (Some \<lparr>uuid = u, balance = cs_balance (readCard u (storage (k_sink k)))\<rparr>, ls')"
    "card_trip ls' = card_trip (storage (k_sink k))"
    using scanCard_Some [OF assms(1,2)] by blast
  show ?thesis
    using assms sc
    by (simp add: handleScanToExit_def Let_def readCardTrip_def complete_in_backend_cards
          writeCardBalance_def clearCardTrip_def readCard_def)
qed

lemma exit_rejected_state:
  assumes "VITE_TEST_CARD_UUID ev = Some u" and "u \<noteq> []"
    and "card_trip (storage (k_sink k)) u = Some t"
    and "or_station y (VITE_EXIT_STATION_ID ev) = Some e" and "e \<noteq> 0"
    and "fetchFareBetweenStations be (trip_station_id t) e (k_fares k, k_config k)
           = (Some fare', fs', cm')"
    and "cs_balance (readCard u (storage (k_sink k))) < fare'"
  shows "fst (handleScanToExit ev be g y k)
           = scan_insufficient
               (insufficient_message fare' (cs_balance (readCard u (storage (k_sink k)))))
               \<lparr>uuid = u, balance = cs_balance (readCard u (storage (k_sink k)))\<rparr> \<and>
         readCard u (storage (k_sink (snd (handleScanToExit ev be g y k))))
           = readCard u (storage (k_sink k))"
proof -
  obtain ls' where sc:
    "scanCard ev (storage (k_sink k))
       = (Some \<lparr>uuid = u, balance = cs_balance (readCard u (storage (k_sink k)))\<rparr>, ls')"
    "card_trip ls' = card_trip (storage (k_sink k))"
    "card_balance ls' = (card_balance (storage (k_sink k)))
                          (u \<mapsto> cs_balance (readCard u (storage (k_sink k))))"
    using scanCard_Some [OF assms(1,2)] by blast
  show ?thesis
    using assms sc
    by (simp add: handleScanToExit_def Let_def readCardTrip_def readCard_def)
qed

text \<open>
  Claim C2, amended. An exit attempt with a scanned card that has an active trip, a
  configured exit station and a balance not below the fare is accepted; afterwards the
  card has no active trip, and its balance is the difference of balance and fare
  rounded to the nearest double. That is within half the spacing of the doubles of the
  exact difference, and it is the exact difference whenever that is itself a double (a
  significand below \<open>2^53\<close> times a power of two, as 25.00 - 3.25 = 21.75 is).
\<close>

theorem exit_debits_rounded_difference:
  assumes "VITE_TEST_CARD_UUID ev = Some u" and "u \<noteq> []"
    and "card_trip (storage (k_sink k)) u = Some t"
    and "or_station y (VITE_EXIT_STATION_ID ev) = Some e" and "e \<noteq> 0"
    and "fetchFareBetweenStations be (trip_station_id t) e (k_fares k, k_config k)
           = (Some fare', fs', cm')"
    and "\<not> cs_balance (readCard u (storage (k_sink k))) < fare'"
  shows "success (fst (handleScanToExit ev be g y k)) \<and>
         readCard u (storage (k_sink (snd (handleScanToExit ev be g y k))))
           = \<lparr>cs_balance = round_double (cs_balance (readCard u (storage (k_sink k))) - fare'),
              cs_activeTrip = None\<rparr> \<and>
         \<bar>round_double (cs_balance (readCard u (storage (k_sink k))) - fare')
            - (cs_balance (readCard u (storage (k_sink k))) - fare')\<bar>
           \<le> ulp (cs_balance (readCard u (storage (k_sink k))) - fare') / 2 \<and>
         (cs_balance (readCard u (storage (k_sink k))) - fare' = of_int m * pow2 j \<and>
          \<bar>m\<bar> < 2 ^ 53 \<and> - 1074 \<le> j \<longrightarrow>
            cs_balance (readCard u (storage (k_sink (snd (handleScanToExit ev be g y k)))))
              = cs_balance (readCard u (storage (k_sink k))) - fare')"
proof -
  let ?d = "cs_balance (readCard u (storage (k_sink k))) - fare'"
  have st: "success (fst (handleScanToExit ev be g y k)) \<and>
         readCard u (storage (k_sink (snd (handleScanToExit ev be g y k))))
           = \<lparr>cs_balance = round_double ?d, cs_activeTrip = None\<rparr>"
    using exit_accepted_state [OF assms] by (simp only: js_sub_def)
  have exact: "round_double ?d = ?d" if "?d = of_int m * pow2 j" "\<bar>m\<bar> < 2 ^ 53" "- 1074 \<le> j"
    using that by (rule round_double_exact)
  from st exact round_double_err [of ?d] show ?thesis
    by simp
qed

lemma double_25_10: "round_double (251/10) = 3532510957718733 / 140737488355328"
  by code_simp

lemma double_3_20: "round_double (16/5) = 3602879701896397 / 1125899906842624"
  by code_simp

lemma double_2_10: "round_double (21/10) = 4728779608739021 / 2251799813685248"
  by code_simp

lemma double_21_90: "round_double (219/10) = 3082150994981683 / 140737488355328"
  by code_simp

lemma double_25_10_minus_3_20:
  "js_sub (3532510957718733 / 140737488355328) (3602879701896397 / 1125899906842624)
     = 6164301989963367 / 281474976710656"
  by code_simp

lemma decimal_fetch:
  "fetchFareBetweenStations be 1 2 (decimal_fares, cm) = (Some (round_double (16/5)), decimal_fares, cm)"
  by (simp add: fetchFareBetweenStations_def cacheKey_def decimal_fares_def)

lemma riding_fetch:
  "fetchFareBetweenStations be 1 2 (offline_fares, cm) = (Some (13/4), offline_fares, cm)"
  by (simp add: fetchFareBetweenStations_def cacheKey_def offline_fares_1_2)

text \<open>
  Claim C2, as stated, at balance 25.10 and fare 3.20: the exit is accepted and the
  stored balance is 21.900000000000002 (the double 6164301989963367 / 2^48), which is
  neither the exact difference of the two stored amounts nor the double for 21.90.
\<close>

theorem exit_decimal_counterexample:
  "cs_balance (readCard ''card-1'' (storage (k_sink decimal_kiosk))) = round_double (251/10) \<and>
   fareCache (k_fares decimal_kiosk) (1, 2) = Some (round_double (16/5)) \<and>
   success (fst (handleScanToExit test_env unreachable gen1 None decimal_kiosk)) \<and>
   cs_balance (readCard ''card-1''
       (storage (k_sink (snd (handleScanToExit test_env unreachable gen1 None decimal_kiosk)))))
     = 6164301989963367 / 281474976710656 \<and>
   cs_balance (readCard ''card-1''
       (storage (k_sink (snd (handleScanToExit test_env unreachable gen1 None decimal_kiosk)))))
     \<noteq> round_double (251/10) - round_double (16/5) \<and>
   cs_balance (readCard ''card-1''
       (storage (k_sink (snd (handleScanToExit test_env unreachable gen1 None decimal_kiosk)))))
     \<noteq> round_double (219/10)"
proof -
  have "success (fst (handleScanToExit test_env unreachable gen1 None decimal_kiosk)) \<and>
        readCard ''card-1''
          (storage (k_sink (snd (handleScanToExit test_env unreachable gen1 None decimal_kiosk))))
          = \<lparr>cs_balance = js_sub (cs_balance (readCard ''card-1'' (storage (k_sink decimal_kiosk))))
                            (round_double (16/5)),
             cs_activeTrip = None\<rparr>"
    by (rule exit_accepted_state [where t = "\<lparr>trip_station_id = 1,
            trip_timestamp = ''2025-09-28T09:30:00.000Z''\<rparr>" and e = 2
          and fs' = decimal_fares and cm' = offline_config])
       (simp_all add: test_env_def decimal_kiosk_def or_station_def decimal_fetch readCard_def
          double_25_10 double_3_20)
  then show ?thesis
    by (simp add: decimal_kiosk_def readCard_def decimal_fares_def double_25_10 double_3_20
          double_21_90 double_25_10_minus_3_20)
qed

text \<open>The theorem at the riding card with balance 25.00 and fare 3.25.\<close>

theorem exit_debits_rounded_difference_witness:
  "success (fst (handleScanToExit test_env unreachable gen1 None riding_kiosk)) \<and>
   readCard ''card-1''
     (storage (k_sink (snd (handleScanToExit test_env unreachable gen1 None riding_kiosk))))
     = \<lparr>cs_balance = 87/4, cs_activeTrip = None\<rparr> \<and>
   cs_balance (readCard ''card-1''
     (storage (k_sink (snd (handleScanToExit test_env unreachable gen1 None riding_kiosk)))))
     = 25 - 13/4"
  using exit_debits_rounded_difference [where ev = test_env and u = "''card-1''"
      and k = riding_kiosk and y = None and e = 2 and be = unreachable and g = gen1
      and t = "\<lparr>trip_station_id = 1, trip_timestamp = ''2025-09-28T09:30:00.000Z''\<rparr>"
      and fare' = "13/4" and fs' = offline_fares and cm' = offline_config
      and m = 87 and j = "- 2"]
  by (simp add: test_env_def riding_kiosk_def or_station_def riding_fetch readCard_def
        pow2_numeral)


text \<open>
  Claim C3. An exit attempt with a scanned card that has an active trip, a configured
  exit station and a balance below the fare is rejected as an insufficient balance; the
  card's balance and active trip are as before, so the card is still ACTIVE. The message
  reports the fare, the balance and the shortfall with two decimals; for a balance and a
  fare within \<open>2^-26\<close> of whole cents, as the doubles nearest to amounts of up to
  \<open>10^10\<close> cents are, the three are the decimal fare, the decimal balance and exactly
  their difference.
\<close>

theorem exit_shortfall_rejected:
  assumes "VITE_TEST_CARD_UUID ev = Some u" and "u \<noteq> []"
    and "card_trip (storage (k_sink k)) u = Some t"
    and "or_station y (VITE_EXIT_STATION_ID ev) = Some e" and "e \<noteq> 0"
    and "fetchFareBetweenStations be (trip_station_id t) e (k_fares k, k_config k)
           = (Some fare', fs', cm')"
    and "cs_balance (readCard u (storage (k_sink k))) < fare'"
  shows "\<not> success (fst (handleScanToExit ev be g y k)) \<and>
         isInsufficientBalance (fst (handleScanToExit ev be g y k)) = Some True \<and>
         errorMessage (fst (handleScanToExit ev be g y k))
           = Some (insufficient_message fare' (cs_balance (readCard u (storage (k_sink k))))) \<and>
         readCard u (storage (k_sink (snd (handleScanToExit ev be g y k))))
           = readCard u (storage (k_sink k)) \<and>
         trip_state_of u (storage (k_sink (snd (handleScanToExit ev be g y k)))) = ACTIVE \<and>
         (0 \<le> cs_balance (readCard u (storage (k_sink k))) \<and>
          \<bar>cs_balance (readCard u (storage (k_sink k))) - of_nat b / 100\<bar> \<le> 1 / 2 ^ 26 \<and>
          \<bar>fare' - of_nat f / 100\<bar> \<le> 1 / 2 ^ 26 \<and> f \<le> 10 ^ 10 \<longrightarrow>
            b \<le> f \<and>
            insufficient_message fare' (cs_balance (readCard u (storage (k_sink k))))
              = ''Insufficient balance'' @ [CHR 0x0A, CHR 0x0A] @
                ''Fare: $'' @ fixed2_of_cents f @ [CHR 0x0A] @
                ''Balance: $'' @ fixed2_of_cents b @ [CHR 0x0A] @
                ''Short: $'' @ fixed2_of_cents (f - b))"
proof -
  let ?bal = "cs_balance (readCard u (storage (k_sink k)))"
  note st = exit_rejected_state [OF assms, of g]
  have active: "trip_state_of u (storage (k_sink (snd (handleScanToExit ev be g y k)))) = ACTIVE"
  proof -
    have "cs_activeTrip (readCard u (storage (k_sink (snd (handleScanToExit ev be g y k)))))
            = cs_activeTrip (readCard u (storage (k_sink k)))"
      using st by simp
    with assms(3) show ?thesis
      by (simp add: readCard_def trip_state_of_def)
  qed
  have cents: "b \<le> f \<and>
      insufficient_message fare' ?bal
        = ''Insufficient balance'' @ [CHR 0x0A, CHR 0x0A] @
          ''Fare: $'' @ fixed2_of_cents f @ [CHR 0x0A] @
          ''Balance: $'' @ fixed2_of_cents b @ [CHR 0x0A] @
          ''Short: $'' @ fixed2_of_cents (f - b)"
    if near: "\<bar>?bal - of_nat b / 100\<bar> \<le> 1 / 2 ^ 26" "\<bar>fare' - of_nat f / 100\<bar> \<le> 1 / 2 ^ 26"
      and nn: "0 \<le> ?bal" and bound: "f \<le> 10 ^ 10"
    using near_cents [OF near nn assms(7) bound]
    by (simp add: insufficient_message_def)
  from st active cents show ?thesis
    by (simp add: scan_insufficient_def)
qed

lemma cents_text: "fixed2_of_cents 320 = ''3.20''" "fixed2_of_cents 210 = ''2.10''"
  "fixed2_of_cents 110 = ''1.10''"
  by code_simp+

lemma short_kiosk_amounts:
  "round_double (21/10) < round_double (16/5)" "0 \<le> round_double (21/10)"
  "\<bar>round_double (21/10) - 21/10\<bar> * 67108864 \<le> 1"
  "\<bar>round_double (16/5) - 16/5\<bar> * 67108864 \<le> 1"
  by (simp_all add: double_2_10 double_3_20)

text \<open>The theorem at balance 2.10 and fare 3.20: the shortfall reported is 1.10.\<close>

theorem exit_shortfall_rejected_witness:
  "\<not> success (fst (handleScanToExit test_env unreachable gen1 None short_kiosk)) \<and>
   errorMessage (fst (handleScanToExit test_env unreachable gen1 None short_kiosk))
     = Some (''Insufficient balance'' @ [CHR 0x0A, CHR 0x0A] @
             ''Fare: $3.20'' @ [CHR 0x0A] @
             ''Balance: $2.10'' @ [CHR 0x0A] @
             ''Short: $1.10'') \<and>
   readCard ''card-1''
     (storage (k_sink (snd (handleScanToExit test_env unreachable gen1 None short_kiosk))))
     = \<lparr>cs_balance = round_double (21/10),
        cs_activeTrip = Some \<lparr>trip_station_id = 1,
                               trip_timestamp = ''2025-09-28T09:30:00.000Z''\<rparr>\<rparr>"
  using exit_shortfall_rejected [where ev = test_env and u = "''card-1''"
      and k = short_kiosk and y = None and e = 2 and be = unreachable and g = gen1
      and t = "\<lparr>trip_station_id = 1, trip_timestamp = ''2025-09-28T09:30:00.000Z''\<rparr>"
      and fare' = "round_double (16/5)" and fs' = decimal_fares and cm' = offline_config
      and b = 210 and f = 320]
  by (simp add: test_env_def short_kiosk_def or_station_def decimal_fetch readCard_def
        short_kiosk_amounts cents_text)

end
